theory Spec2Isabelle
  imports Complex_Main "HOL-Library.Sublist" "HOL-Library.AList" "HOL-Library.Log_Nat"
begin

section \<open>Values of the JavaScript runtime\<close>

text \<open>
  A thrown value is either an \<open>Error\<close> instance, with the name of its constructor and
  its message, or some other value (\<open>error instanceof Error\<close> is false). A rejected
  promise and a synchronous throw are both the \<open>Inl\<close> branch of \<open>js_error + 'a\<close>.
\<close>

datatype js_error = Error (error_class: string) (error_message: string) | NonError

text \<open>
  A JavaScript number that \<open>JSON.parse\<close> can produce: a finite double, which is a
  rational, or an infinity (\<open>1e999\<close> parses to \<open>Infinity\<close>). \<open>NaN\<close> is not
  expressible in JSON. Comparisons with the constants 0 and 1 are exact on doubles.
\<close>

datatype js_number = Finite rat | PosInfinity | NegInfinity

fun js_less :: "js_number \<Rightarrow> js_number \<Rightarrow> bool" where
  "js_less (Finite a) (Finite b) = (a < b)"
| "js_less (Finite a) PosInfinity = True"
| "js_less (Finite a) NegInfinity = False"
| "js_less NegInfinity (Finite b) = True"
| "js_less NegInfinity PosInfinity = True"
| "js_less NegInfinity NegInfinity = False"
| "js_less PosInfinity b = False"

datatype json =
    JNull
  | JBool bool
  | JNumber js_number
  | JString string
  | JArray "json list"
  | JObject "(string \<times> json) list"

text \<open>
  Property read \<open>v.k\<close>: \<open>None\<close> is \<open>undefined\<close>. Reading a property of \<open>null\<close>
  throws a TypeError; on a boolean, number, string or array none of the property names
  the program reads (\<open>shouldApply\<close>, \<open>confidence\<close>, \<open>reasoning\<close>, \<open>changes\<close>,
  \<open>filename\<close>, \<open>content\<close>, \<open>description\<close>, \<open>lineNumber\<close>) is defined, so the
  read gives \<open>undefined\<close>. An object produced by \<open>JSON.parse\<close> lists every key once.
\<close>

fun get_prop :: "json \<Rightarrow> string \<Rightarrow> js_error + json option" where
  "get_prop JNull k =
     Inl (Error ''TypeError'' (''Cannot read properties of null (reading '' @ [CHR 0x27] @ k @ [CHR 0x27] @ '')''))"
| "get_prop (JObject kvs) k = Inr (map_of kvs k)"
| "get_prop v k = Inr None"

text \<open>
  Decimal rendering of a non-negative integer, as a template literal prints it; a digit
  is always below ten.
\<close>

definition digit_char :: "nat \<Rightarrow> char" where
  "digit_char d = ''0123456789'' ! d"

fun show_nat :: "nat \<Rightarrow> string" where
  "show_nat n = (if n < 10 then [digit_char n] else show_nat (n div 10) @ [digit_char (n mod 10)])"

declare show_nat.simps [simp del]

section \<open>Types of the program (src/types/index.ts)\<close>

record github_comment =
  comment_id :: nat
  comment_body :: string
  comment_user_login :: string

record github_pr =
  pr_number :: nat
  pr_title :: string
  pr_body :: string
  pr_head_sha :: string
  pr_base_ref :: string

record github_file =
  file_filename :: string
  file_status :: string

record github_repository =
  repo_name :: string
  repo_owner_login :: string

record webhook_payload =
  action :: string
  comment :: "github_comment option"
  pull_request :: "github_pr option"
  repository :: github_repository

text \<open>
  \<open>CodeChange\<close>. The interface declares \<open>lineNumber?: number\<close>; the value the parser
  stores there is whatever the reply holds, so the field carries any JSON value or
  \<open>undefined\<close>.
\<close>

record code_change =
  filename :: string
  content :: string
  lineNumber :: "json option"
  description :: string

record ai_analysis_result =
  shouldApply :: bool
  changes :: "code_change list"
  reasoning :: string
  confidence :: js_number

section \<open>Fix-Decision Engine (OpenAIService)\<close>

text \<open>
  \<open>response.match(/\{[\s\S]*\}/)\<close>: the match starts at the first opening brace and,
  the star being greedy, ends at the last closing brace after it.
\<close>

definition json_match :: "string \<Rightarrow> string option" where
  "json_match response =
     (let t = dropWhile (\<lambda>c. c \<noteq> CHR ''{'') response;
          m = rev (dropWhile (\<lambda>c. c \<noteq> CHR ''}'') (rev t))
      in if m = [] then None else Some m)"

text \<open>
  Sequencing of statements that may throw: the second runs on the value of the first
  unless the first threw.
\<close>

definition and_then :: "js_error + 'a \<Rightarrow> ('a \<Rightarrow> js_error + 'b) \<Rightarrow> js_error + 'b" where
  "and_then m f = (case m of Inl e \<Rightarrow> Inl e | Inr a \<Rightarrow> f a)"

text \<open>
  The type tests of the validator: \<open>if (typeof x !== 'boolean') throw new Error(msg)\<close>
  and its siblings. The value \<open>undefined\<close> of a missing property fails each of them.
\<close>

definition expect_boolean :: "json option \<Rightarrow> string \<Rightarrow> js_error + bool" where
  "expect_boolean x msg = (case x of Some (JBool b) \<Rightarrow> Inr b | _ \<Rightarrow> Inl (Error ''Error'' msg))"

definition expect_string :: "json option \<Rightarrow> string \<Rightarrow> js_error + string" where
  "expect_string x msg = (case x of Some (JString v) \<Rightarrow> Inr v | _ \<Rightarrow> Inl (Error ''Error'' msg))"

definition expect_array :: "json option \<Rightarrow> string \<Rightarrow> js_error + json list" where
  "expect_array x msg = (case x of Some (JArray xs) \<Rightarrow> Inr xs | _ \<Rightarrow> Inl (Error ''Error'' msg))"

text \<open>
  \<open>typeof parsed.confidence !== 'number' || parsed.confidence < 0 || parsed.confidence > 1\<close>
\<close>

definition expect_confidence :: "json option \<Rightarrow> string \<Rightarrow> js_error + js_number" where
  "expect_confidence x msg =
     (case x of
        Some (JNumber n) \<Rightarrow>
          if js_less n (Finite 0) \<or> js_less (Finite 1) n then Inl (Error ''Error'' msg) else Inr n
      | _ \<Rightarrow> Inl (Error ''Error'' msg))"

text \<open>The callback of \<open>parsed.changes.map\<close>, with the index of the element.\<close>

definition validate_change :: "json \<Rightarrow> nat \<Rightarrow> js_error + code_change" where
  "validate_change change index =
     and_then (get_prop change ''filename'') (\<lambda>fo.
     and_then (expect_string fo (''Invalid filename in change '' @ show_nat index)) (\<lambda>f.
     and_then (get_prop change ''content'') (\<lambda>co.
     and_then (expect_string co (''Invalid content in change '' @ show_nat index)) (\<lambda>c.
     and_then (get_prop change ''description'') (\<lambda>d_o.
     and_then (expect_string d_o (''Invalid description in change '' @ show_nat index)) (\<lambda>d.
     and_then (get_prop change ''lineNumber'') (\<lambda>lno.
       Inr \<lparr>filename = f, content = c, lineNumber = lno, description = d\<rparr>)))))))"

fun validate_changes :: "json list \<Rightarrow> nat \<Rightarrow> js_error + code_change list" where
  "validate_changes [] index = Inr []"
| "validate_changes (change # rest) index =
     and_then (validate_change change index) (\<lambda>c.
     and_then (validate_changes rest (Suc index)) (\<lambda>cs. Inr (c # cs)))"

text \<open>The body of the \<open>try\<close> block of \<open>parseAIResponse\<close>; \<open>JSON.parse\<close> is a parameter.\<close>

definition parseAIResponse_try ::
  "(string \<Rightarrow> js_error + json) \<Rightarrow> string \<Rightarrow> js_error + ai_analysis_result" where
  "parseAIResponse_try parse response =
     and_then (case json_match response of
                 None \<Rightarrow> Inl (Error ''Error'' ''No JSON found in response'')
               | Some m \<Rightarrow> Inr m) (\<lambda>jsonMatch.
     and_then (parse jsonMatch) (\<lambda>parsed.
     and_then (get_prop parsed ''shouldApply'') (\<lambda>sa.
     and_then (expect_boolean sa ''Invalid shouldApply field'') (\<lambda>b.
     and_then (get_prop parsed ''confidence'') (\<lambda>co.
     and_then (expect_confidence co ''Invalid confidence field'') (\<lambda>n.
     and_then (get_prop parsed ''reasoning'') (\<lambda>ro.
     and_then (expect_string ro ''Invalid reasoning field'') (\<lambda>r.
     and_then (get_prop parsed ''changes'') (\<lambda>cho.
     and_then (expect_array cho ''Invalid changes field'') (\<lambda>xs.
     and_then (validate_changes xs 0) (\<lambda>cs.
       Inr \<lparr>shouldApply = b, changes = cs, reasoning = r, confidence = n\<rparr>)))))))))))"

text \<open>\<open>error instanceof Error ? error.message : 'Unknown error'\<close>\<close>

definition message_of :: "js_error \<Rightarrow> string" where
  "message_of e = (case e of Error c m \<Rightarrow> m | NonError \<Rightarrow> ''Unknown error'')"

definition safe_default :: "string \<Rightarrow> ai_analysis_result" where
  "safe_default why = \<lparr>shouldApply = False, changes = [], reasoning = why, confidence = Finite 0\<rparr>"

definition parseAIResponse ::
  "(string \<Rightarrow> js_error + json) \<Rightarrow> string \<Rightarrow> js_error + ai_analysis_result" where
  "parseAIResponse parse response =
     (case parseAIResponse_try parse response of
        Inr a \<Rightarrow> Inr a
      | Inl e \<Rightarrow> Inr (safe_default (''Failed to parse AI response: '' @ message_of e)))"

text \<open>
  The reply of the chat-completion endpoint, as far as the program reads it:
  \<open>response.choices[0]?.message?.content\<close>.
\<close>

datatype chat_message = ChatMessage (message_content: "string option")
datatype chat_choice = ChatChoice (choice_message: "chat_message option")
datatype chat_completion = ChatCompletion (choices: "chat_choice list")

definition first_content :: "chat_completion \<Rightarrow> string option" where
  "first_content response =
     (case choices response of
        [] \<Rightarrow> None
      | c # _ \<Rightarrow> (case choice_message c of None \<Rightarrow> None | Some m \<Rightarrow> message_content m))"

section \<open>The outside world\<close>

text \<open>
  Every call that leaves the process is recorded, with its outcome, in a log that the
  model threads through the program next to the state \<open>'w\<close> of the outside world
  (GitHub, the model endpoint, the disk and the git remote).
\<close>

datatype call =
    GetPullRequestFiles string string nat
  | GetFileContent string string string string
  | CreateComment string string nat string
  | ChatAnalysis
  | ChatSummary
  | NewSimpleGit string
  | FsMkdir string
  | FsWriteFile string string
  | GitClone string string
  | GitPull
  | GitAddConfig string string
  | GitCheckout string
  | GitCheckoutLocalBranch string
  | GitAdd "string list"
  | GitStatus
  | GitCommit string
  | GitPush string string

type_synonym event = "call \<times> bool"

type_synonym 'w st = "'w \<times> event list"

definition perform ::
  "call \<Rightarrow> ('w \<Rightarrow> (js_error + 'a) \<times> 'w) \<Rightarrow> 'w st \<Rightarrow> (js_error + 'a) \<times> 'w st" where
  "perform c f s = (case f (fst s) of (r, w') \<Rightarrow> (r, (w', snd s @ [(c, \<not> isl r)])))"

text \<open>\<open>StatusSummary\<close> of simple-git, as far as the program reads it.\<close>

record status_summary =
  modified :: "string list"
  created :: "string list"

text \<open>
  The services the program calls and does not define: the GitHub REST client
  (\<open>GitHubService\<close> is a wrapper of one HTTP request per method), the chat-completion
  endpoint (its request is determined by the arguments of the caller: the system prompt
  is a constant and the user prompt a template of them), \<open>JSON.parse\<close>, the clock,
  \<open>fs\<close>, \<open>path\<close> and the \<open>SimpleGit\<close> instance bound to a working copy.
  \<open>percent\<close> is the floating-point expression \<open>Math.round(x * 100)\<close> as printed.
\<close>

record 'w platform =
  github_getPullRequestFiles :: "string \<Rightarrow> string \<Rightarrow> nat \<Rightarrow> 'w \<Rightarrow> (js_error + github_file list) \<times> 'w"
  github_getFileContent :: "string \<Rightarrow> string \<Rightarrow> string \<Rightarrow> string \<Rightarrow> 'w \<Rightarrow> (js_error + string) \<times> 'w"
  github_createComment :: "string \<Rightarrow> string \<Rightarrow> nat \<Rightarrow> string \<Rightarrow> 'w \<Rightarrow> (js_error + unit) \<times> 'w"
  openai_create_analysis ::
    "github_comment \<Rightarrow> github_pr \<Rightarrow> github_file list \<Rightarrow> (string \<times> string) list \<Rightarrow> 'w \<Rightarrow> (js_error + chat_completion) \<times> 'w"
  openai_create_summary :: "code_change list \<Rightarrow> 'w \<Rightarrow> (js_error + chat_completion) \<times> 'w"
  JSON_parse :: "string \<Rightarrow> js_error + json"
  percent :: "js_number \<Rightarrow> string"
  Date_now :: "'w \<Rightarrow> nat"
  path_join :: "string \<Rightarrow> string \<Rightarrow> string"
  path_dirname :: "string \<Rightarrow> string"
  fs_existsSync :: "string \<Rightarrow> 'w \<Rightarrow> bool"
  fs_mkdirSync :: "string \<Rightarrow> 'w \<Rightarrow> (js_error + unit) \<times> 'w"
  fs_writeFileSync :: "string \<Rightarrow> string \<Rightarrow> 'w \<Rightarrow> (js_error + unit) \<times> 'w"
  simpleGit :: "string \<Rightarrow> 'w \<Rightarrow> (js_error + unit) \<times> 'w"
  git_clone :: "string \<Rightarrow> string \<Rightarrow> 'w \<Rightarrow> (js_error + unit) \<times> 'w"
  git_pull :: "'w \<Rightarrow> (js_error + unit) \<times> 'w"
  git_addConfig :: "string \<Rightarrow> string \<Rightarrow> 'w \<Rightarrow> (js_error + unit) \<times> 'w"
  git_checkout :: "string \<Rightarrow> 'w \<Rightarrow> (js_error + unit) \<times> 'w"
  git_checkoutLocalBranch :: "string \<Rightarrow> 'w \<Rightarrow> (js_error + unit) \<times> 'w"
  git_add :: "string list \<Rightarrow> 'w \<Rightarrow> (js_error + unit) \<times> 'w"
  git_status :: "'w \<Rightarrow> (js_error + status_summary) \<times> 'w"
  git_commit :: "string \<Rightarrow> 'w \<Rightarrow> (js_error + string) \<times> 'w"
  git_push :: "string \<Rightarrow> string \<Rightarrow> 'w \<Rightarrow> (js_error + unit) \<times> 'w"

text \<open>
  An \<open>async\<close> function is a function of the state that returns a result, \<open>Inl\<close> for
  a rejected promise, and the new state. \<open>await\<close> sequences, \<open>try_catch\<close> is the
  \<open>try\<close>/\<open>catch\<close> statement.
\<close>

type_synonym ('a, 'w) async = "'w st \<Rightarrow> (js_error + 'a) \<times> 'w st"

definition resolve :: "'a \<Rightarrow> ('a, 'w) async" where
  "resolve a s = (Inr a, s)"

definition reject :: "js_error \<Rightarrow> ('a, 'w) async" where
  "reject e s = (Inl e, s)"

definition sync :: "js_error + 'a \<Rightarrow> ('a, 'w) async" where
  "sync r s = (r, s)"

definition await :: "('a, 'w) async \<Rightarrow> ('a \<Rightarrow> ('b, 'w) async) \<Rightarrow> ('b, 'w) async" where
  "await m f s = (case m s of (Inl e, s') \<Rightarrow> (Inl e, s') | (Inr a, s') \<Rightarrow> f a s')"

definition try_catch :: "('a, 'w) async \<Rightarrow> (js_error \<Rightarrow> ('a, 'w) async) \<Rightarrow> ('a, 'w) async" where
  "try_catch m h s = (case m s of (Inl e, s') \<Rightarrow> h e s' | (Inr a, s') \<Rightarrow> (Inr a, s'))"

definition nl :: string where
  "nl = [CHR 0x0A]"

text \<open>\<open>Array.prototype.join('\n')\<close>\<close>

fun join_lines :: "string list \<Rightarrow> string" where
  "join_lines [] = []"
| "join_lines [x] = x"
| "join_lines (x # y # ys) = x @ nl @ join_lines (y # ys)"

definition change_line :: "code_change \<Rightarrow> string" where
  "change_line c = ''- '' @ filename c @ '': '' @ description c"

text \<open>
  \<open>OpenAIService.analyzeComment\<close>: the request, the reading of the reply and
  \<open>parseAIResponse\<close> are inside one \<open>try\<close>; the \<open>catch\<close> returns a verdict.
\<close>

definition analyzeComment ::
  "'w platform \<Rightarrow> github_comment \<Rightarrow> github_pr \<Rightarrow> github_file list \<Rightarrow> (string \<times> string) list
     \<Rightarrow> (ai_analysis_result, 'w) async" where
  "analyzeComment P cmt pr files fileContents =
     try_catch
       (await (perform ChatAnalysis (openai_create_analysis P cmt pr files fileContents)) (\<lambda>response.
          case first_content response of
            None \<Rightarrow> reject (Error ''Error'' ''No response from OpenAI'')
          | Some result \<Rightarrow>
              if result = [] then reject (Error ''Error'' ''No response from OpenAI'')
              else sync (parseAIResponse (JSON_parse P) result)))
       (\<lambda>error. resolve (safe_default (''Error analyzing comment: '' @ message_of error)))"

definition generateChangeSummary :: "'w platform \<Rightarrow> code_change list \<Rightarrow> (string, 'w) async" where
  "generateChangeSummary P chs =
     try_catch
       (await (perform ChatSummary (openai_create_summary P chs)) (\<lambda>response.
          resolve (case first_content response of
                     None \<Rightarrow> ''Applied suggested changes''
                   | Some c \<Rightarrow> if c = [] then ''Applied suggested changes'' else c)))
       (\<lambda>error. resolve ''Applied suggested changes'')"

section \<open>Working-Copy Manager (GitService)\<close>

record config =
  git_token :: string
  git_userName :: string
  git_userEmail :: string

definition setupRepository ::
  "'w platform \<Rightarrow> config \<Rightarrow> string \<Rightarrow> string \<Rightarrow> string \<Rightarrow> string \<Rightarrow> (unit, 'w) async" where
  "setupRepository P cfg repoPath owner repo branch =
     (let repoUrl = ''https://'' @ git_token cfg @ ''@github.com/'' @ owner @ ''/'' @ repo @ ''.git'' in
      await (\<lambda>s. if \<not> fs_existsSync P repoPath (fst s)
                  then perform (GitClone repoUrl repoPath) (git_clone P repoUrl repoPath) s
                  else perform GitPull (git_pull P) s) (\<lambda>_.
      await (perform (GitAddConfig ''user.name'' (git_userName cfg))
               (git_addConfig P ''user.name'' (git_userName cfg))) (\<lambda>_.
      await (perform (GitAddConfig ''user.email'' (git_userEmail cfg))
               (git_addConfig P ''user.email'' (git_userEmail cfg))) (\<lambda>_.
      try_catch (perform (GitCheckout branch) (git_checkout P branch))
        (\<lambda>error. perform (GitCheckoutLocalBranch branch) (git_checkoutLocalBranch P branch))))))"

text \<open>
  \<open>`fix/pr-${prNumber}-${Date.now()}`\<close>. A PR number and the epoch milliseconds are
  non-negative integers; JavaScript prints an integer below \<open>10^21\<close> in plain decimal.
\<close>

definition fix_branch_name :: "nat \<Rightarrow> nat \<Rightarrow> string" where
  "fix_branch_name prNumber now = ''fix/pr-'' @ show_nat prNumber @ ''-'' @ show_nat now"

definition createFixBranch :: "'w platform \<Rightarrow> string \<Rightarrow> nat \<Rightarrow> (string, 'w) async" where
  "createFixBranch P baseBranch prNumber s =
     (let branchName = fix_branch_name prNumber (Date_now P (fst s)) in
      await (perform (GitCheckout baseBranch) (git_checkout P baseBranch)) (\<lambda>_.
      await (perform GitPull (git_pull P)) (\<lambda>_.
      await (perform (GitCheckoutLocalBranch branchName) (git_checkoutLocalBranch P branchName)) (\<lambda>_.
      resolve branchName))) s)"

fun applyChanges :: "'w platform \<Rightarrow> string \<Rightarrow> code_change list \<Rightarrow> (unit, 'w) async" where
  "applyChanges P repoPath [] = resolve ()"
| "applyChanges P repoPath (change # rest) =
     (let filePath = path_join P repoPath (filename change);
          dir = path_dirname P filePath
      in await (\<lambda>s. if \<not> fs_existsSync P dir (fst s)
                     then perform (FsMkdir dir) (fs_mkdirSync P dir) s
                     else resolve () s) (\<lambda>_.
         await (perform (FsWriteFile filePath (content change))
                  (fs_writeFileSync P filePath (content change))) (\<lambda>_.
         applyChanges P repoPath rest)))"

definition commit_message :: "nat \<Rightarrow> nat \<Rightarrow> code_change list \<Rightarrow> string" where
  "commit_message prNumber commentId chs =
     ''fix: Apply PR comment suggestions'' @ nl @ nl @
     ''PR: #'' @ show_nat prNumber @ nl @
     ''Comment: #'' @ show_nat commentId @ nl @ nl @
     ''Changes:'' @ nl @
     join_lines (map change_line chs) @ nl @ nl @
     ''Applied by AI Comment Fixer Bot''"

definition commitChanges ::
  "'w platform \<Rightarrow> nat \<Rightarrow> nat \<Rightarrow> code_change list \<Rightarrow> (string, 'w) async" where
  "commitChanges P prNumber commentId chs =
     (let changedFiles = map filename chs in
      await (perform (GitAdd changedFiles) (git_add P changedFiles)) (\<lambda>_.
      await (perform GitStatus (git_status P)) (\<lambda>status.
        if length (modified status) = 0 \<and> length (created status) = 0
        then reject (Error ''Error'' ''No changes to commit'')
        else
          (let commitMessage = commit_message prNumber commentId chs in
           await (perform (GitCommit commitMessage) (git_commit P commitMessage)) (\<lambda>result.
           resolve result)))))"

definition pushChanges :: "'w platform \<Rightarrow> string \<Rightarrow> (unit, 'w) async" where
  "pushChanges P branchName = perform (GitPush ''origin'' branchName) (git_push P ''origin'' branchName)"

section \<open>Orchestrator (CommentProcessor and the webhook handler)\<close>

text \<open>The three marks that open the comments, byte for byte as the source file has them.\<close>

definition robot_mark :: string where
  "robot_mark = [CHR 0xEF, CHR 0xA3, CHR 0xBF, CHR 0xC3, CHR 0xBC, CHR 0xC2, CHR 0xA7, CHR 0xC3, CHR 0xB1]"

definition check_mark :: string where
  "check_mark = [CHR 0xE2, CHR 0x80, CHR 0x9A, CHR 0xC3, CHR 0xBA, CHR 0xC3, CHR 0x96]"

definition cross_mark :: string where
  "cross_mark = [CHR 0xE2, CHR 0x80, CHR 0x9A, CHR 0xC3, CHR 0xB9, CHR 0xC3, CHR 0xA5]"

text \<open>The loop of \<open>CommentProcessor.analyzeComment\<close> that fills \<open>fileContents\<close>.\<close>

fun fetch_contents ::
  "'w platform \<Rightarrow> github_repository \<Rightarrow> github_pr \<Rightarrow> github_file list \<Rightarrow> (string \<times> string) list
     \<Rightarrow> ((string \<times> string) list, 'w) async" where
  "fetch_contents P repo pr [] fileContents = resolve fileContents"
| "fetch_contents P repo pr (file # rest) fileContents =
     await
       (try_catch
          (await (perform (GetFileContent (repo_owner_login repo) (repo_name repo) (file_filename file) (pr_head_sha pr))
                    (github_getFileContent P (repo_owner_login repo) (repo_name repo) (file_filename file) (pr_head_sha pr)))
             (\<lambda>c. resolve (AList.update (file_filename file) c fileContents)))
          (\<lambda>error. resolve (AList.update (file_filename file) ''File content not available'' fileContents)))
       (\<lambda>fileContents'. fetch_contents P repo pr rest fileContents')"

definition processor_analyzeComment ::
  "'w platform \<Rightarrow> github_comment \<Rightarrow> github_pr \<Rightarrow> github_repository \<Rightarrow> (ai_analysis_result, 'w) async" where
  "processor_analyzeComment P cmt pr repo =
     await (perform (GetPullRequestFiles (repo_owner_login repo) (repo_name repo) (pr_number pr))
              (github_getPullRequestFiles P (repo_owner_login repo) (repo_name repo) (pr_number pr))) (\<lambda>files.
     await (fetch_contents P repo pr files []) (\<lambda>fileContents.
     analyzeComment P cmt pr files fileContents))"

definition analysis_message :: "'w platform \<Rightarrow> ai_analysis_result \<Rightarrow> string" where
  "analysis_message P analysis =
     robot_mark @ '' **AI Analysis**'' @ nl @ nl @
     ''**Decision:** '' @
       (if shouldApply analysis then check_mark @ '' Will apply'' else cross_mark @ '' Will not apply'') @ nl @ nl @
     ''**Reasoning:** '' @ reasoning analysis @ nl @ nl @
     ''**Confidence:** '' @ percent P (confidence analysis) @ ''%'' @ nl @ nl @
     (if length (changes analysis) > 0
      then ''**Proposed Changes:**'' @ nl @ join_lines (map change_line (changes analysis))
      else []) @ nl @ nl @
     ''---'' @ nl @
     ''*This analysis was performed by the AI Comment Fixer Bot*''"

definition addAnalysisComment ::
  "'w platform \<Rightarrow> github_comment \<Rightarrow> github_pr \<Rightarrow> github_repository \<Rightarrow> ai_analysis_result \<Rightarrow> (unit, 'w) async" where
  "addAnalysisComment P cmt pr repo analysis =
     (let message = analysis_message P analysis in
      perform (CreateComment (repo_owner_login repo) (repo_name repo) (pr_number pr) message)
        (github_createComment P (repo_owner_login repo) (repo_name repo) (pr_number pr) message))"

definition success_message :: "'w platform \<Rightarrow> string \<Rightarrow> github_pr \<Rightarrow> ai_analysis_result \<Rightarrow> string \<Rightarrow> string" where
  "success_message P summary pr analysis fixBranch =
     check_mark @ '' **Changes Applied Successfully**'' @ nl @ nl @
     summary @ nl @ nl @
     ''**Branch:** `'' @ fixBranch @ ''`'' @ nl @
     ''**Confidence:** '' @ percent P (confidence analysis) @ ''%'' @ nl @ nl @
     ''**Changes Made:**'' @ nl @
     join_lines (map change_line (changes analysis)) @ nl @ nl @
     ''**Next Steps:**'' @ nl @
     ''1. Review the changes in the new branch'' @ nl @
     ''2. Create a new PR from `'' @ fixBranch @ ''` to `'' @ pr_base_ref pr @ ''`'' @ nl @
     ''3. Or merge the changes directly if approved'' @ nl @ nl @
     ''---'' @ nl @
     ''*Applied by AI Comment Fixer Bot*''"

definition addSuccessComment ::
  "'w platform \<Rightarrow> github_comment \<Rightarrow> github_pr \<Rightarrow> github_repository \<Rightarrow> ai_analysis_result \<Rightarrow> string
     \<Rightarrow> (unit, 'w) async" where
  "addSuccessComment P cmt pr repo analysis fixBranch =
     await (generateChangeSummary P (changes analysis)) (\<lambda>summary.
       (let message = success_message P summary pr analysis fixBranch in
        perform (CreateComment (repo_owner_login repo) (repo_name repo) (pr_number pr) message)
          (github_createComment P (repo_owner_login repo) (repo_name repo) (pr_number pr) message)))"

text \<open>
  \<open>CommentProcessor.applyChanges\<close>. The \<open>GitService\<close> is constructed before the
  inner \<open>try\<close>, whose \<open>catch\<close> rethrows.
\<close>

definition processor_applyChanges ::
  "'w platform \<Rightarrow> config \<Rightarrow> string \<Rightarrow> github_comment \<Rightarrow> github_pr \<Rightarrow> github_repository
     \<Rightarrow> ai_analysis_result \<Rightarrow> (unit, 'w) async" where
  "processor_applyChanges P cfg tempDir cmt pr repo analysis =
     (let repoPath = path_join P tempDir (repo_owner_login repo @ ''-'' @ repo_name repo) in
      await (perform (NewSimpleGit repoPath) (simpleGit P repoPath)) (\<lambda>_.
      try_catch
        (await (setupRepository P cfg repoPath (repo_owner_login repo) (repo_name repo) (pr_base_ref pr)) (\<lambda>_.
         await (createFixBranch P (pr_base_ref pr) (pr_number pr)) (\<lambda>fixBranch.
         await (applyChanges P repoPath (changes analysis)) (\<lambda>_.
         await (commitChanges P (pr_number pr) (comment_id cmt) (changes analysis)) (\<lambda>commitSha.
         await (pushChanges P fixBranch) (\<lambda>_.
         addSuccessComment P cmt pr repo analysis fixBranch))))))
        (\<lambda>error. reject error)))"

text \<open>
  The steps of \<open>CommentProcessor.applyChanges\<close> that come before the success comment:
  the construction of the \<open>GitService\<close>, then \<open>setupRepository\<close>, \<open>createFixBranch\<close>,
  \<open>applyChanges\<close>, \<open>commitChanges\<close> and \<open>pushChanges\<close>. Their result is the fix
  branch. \<open>processor_applyChanges\<close> is these steps followed by \<open>addSuccessComment\<close>
  (lemma \<open>processor_applyChanges_steps\<close>).
\<close>

definition fix_steps ::
  "'w platform \<Rightarrow> config \<Rightarrow> string \<Rightarrow> github_comment \<Rightarrow> github_pr \<Rightarrow> github_repository
     \<Rightarrow> ai_analysis_result \<Rightarrow> (string, 'w) async" where
  "fix_steps P cfg tempDir cmt pr repo analysis =
     (let repoPath = path_join P tempDir (repo_owner_login repo @ ''-'' @ repo_name repo) in
      await (perform (NewSimpleGit repoPath) (simpleGit P repoPath)) (\<lambda>_.
      await (setupRepository P cfg repoPath (repo_owner_login repo) (repo_name repo) (pr_base_ref pr)) (\<lambda>_.
      await (createFixBranch P (pr_base_ref pr) (pr_number pr)) (\<lambda>fixBranch.
      await (applyChanges P repoPath (changes analysis)) (\<lambda>_.
      await (commitChanges P (pr_number pr) (comment_id cmt) (changes analysis)) (\<lambda>commitSha.
      await (pushChanges P fixBranch) (\<lambda>_.
      resolve fixBranch)))))))"

text \<open>\<open>error instanceof Error ? error.constructor.name : 'Unknown'\<close>\<close>

definition class_of :: "js_error \<Rightarrow> string" where
  "class_of e = (case e of Error c m \<Rightarrow> c | NonError \<Rightarrow> ''Unknown'')"

definition error_message_text :: "js_error \<Rightarrow> string" where
  "error_message_text error =
     cross_mark @ '' **Error Processing Comment**'' @ nl @ nl @
     ''An error occurred while processing this comment:'' @ nl @ nl @
     ''```'' @ nl @
     message_of error @ nl @
     ''```'' @ nl @ nl @
     ''**Error Type:** '' @ class_of error @ nl @ nl @
     ''Please check the bot logs for more details or try again later.'' @ nl @ nl @
     ''---'' @ nl @
     ''*AI Comment Fixer Bot*''"

definition handleError :: "'w platform \<Rightarrow> webhook_payload \<Rightarrow> js_error \<Rightarrow> (unit, 'w) async" where
  "handleError P payload error =
     (case (comment payload, pull_request payload) of
        (Some cmt, Some pr) \<Rightarrow>
          (let errorMessage = error_message_text error in
           try_catch
             (perform (CreateComment (repo_owner_login (repository payload)) (repo_name (repository payload))
                         (pr_number pr) errorMessage)
                (github_createComment P (repo_owner_login (repository payload)) (repo_name (repository payload))
                   (pr_number pr) errorMessage))
             (\<lambda>commentError. resolve ()))
      | _ \<Rightarrow> resolve ())"

definition processComment :: "'w platform \<Rightarrow> config \<Rightarrow> string \<Rightarrow> webhook_payload \<Rightarrow> (unit, 'w) async" where
  "processComment P cfg tempDir payload =
     try_catch
       (case (comment payload, pull_request payload) of
          (Some cmt, Some pr) \<Rightarrow>
            if comment_user_login cmt = ''AI Comment Fixer Bot'' then resolve ()
            else
              await (processor_analyzeComment P cmt pr (repository payload)) (\<lambda>analysis.
                if \<not> shouldApply analysis
                then addAnalysisComment P cmt pr (repository payload) analysis
                else processor_applyChanges P cfg tempDir cmt pr (repository payload) analysis)
        | _ \<Rightarrow> resolve ())
       (\<lambda>error. handleError P payload error)"

text \<open>
  \<open>handleCommentEvent\<close> schedules \<open>processComment\<close> with \<open>setImmediate\<close>, inside a
  \<open>try\<close> whose \<open>catch\<close> only logs; the scheduled task is run here in place.
\<close>

definition handleCommentEvent :: "'w platform \<Rightarrow> config \<Rightarrow> string \<Rightarrow> webhook_payload \<Rightarrow> (unit, 'w) async" where
  "handleCommentEvent P cfg tempDir payload =
     (if action payload \<noteq> ''created'' then resolve ()
      else if pull_request payload = None then resolve ()
      else try_catch (processComment P cfg tempDir payload) (\<lambda>error. resolve ()))"

section \<open>Signature Verifier (GitHubService.verifyWebhookSignature)\<close>

text \<open>
  A buffer is a list of bytes. \<open>Buffer.from(s)\<close> takes the bytes of the string;
  \<open>Buffer.from(s, 'hex')\<close> decodes pairs of hexadecimal digits and stops at the first
  pair that is not one, dropping an odd last character.
\<close>

definition utf8_bytes :: "string \<Rightarrow> nat list" where
  "utf8_bytes s = map of_char s"

definition unhex :: "char \<Rightarrow> nat option" where
  "unhex c =
     (let n = (of_char c :: nat) in
      if 48 \<le> n \<and> n \<le> 57 then Some (n - 48)
      else if 97 \<le> n \<and> n \<le> 102 then Some (n - 87)
      else if 65 \<le> n \<and> n \<le> 70 then Some (n - 55)
      else None)"

fun hex_decode :: "string \<Rightarrow> nat list" where
  "hex_decode (a # b # rest) =
     (case (unhex a, unhex b) of
        (Some x, Some y) \<Rightarrow> (16 * x + y) # hex_decode rest
      | _ \<Rightarrow> [])"
| "hex_decode _ = []"

text \<open>\<open>crypto.timingSafeEqual\<close> throws when the two buffers differ in length.\<close>

definition timingSafeEqual :: "nat list \<Rightarrow> nat list \<Rightarrow> js_error + bool" where
  "timingSafeEqual a b =
     (if length a \<noteq> length b
      then Inl (Error ''RangeError'' ''Input buffers must have the same byte length'')
      else Inr (a = b))"

text \<open>
  The source holds two bodies of \<open>verifyWebhookSignature\<close>. The first parameter of
  both models is \<open>crypto.createHmac('sha256', key).update(payload).digest('hex')\<close>.

  The one that takes the payload as a string, as the webhook handler passes it
  (\<open>req.rawBody.toString()\<close>), compares the header with \<open>sha256=\<close> and the digest, and
  has no \<open>try\<close>.
\<close>

definition verifyWebhookSignature ::
  "(string \<Rightarrow> string \<Rightarrow> string) \<Rightarrow> string \<Rightarrow> string \<Rightarrow> string \<Rightarrow> js_error + bool" where
  "verifyWebhookSignature hmac_hex webhookSecret payload signature =
     (let expectedSignature = ''sha256='' @ hmac_hex webhookSecret payload in
      timingSafeEqual (utf8_bytes signature) (utf8_bytes expectedSignature))"

text \<open>
  The one that takes the payload as a buffer strips the prefix, decodes both sides from
  hexadecimal and compares inside a \<open>try\<close> whose \<open>catch\<close> returns false. The key is
  the environment variable or, when that is unset or empty, a literal.
\<close>

definition fallback_secret :: string where
  "fallback_secret = ''d1169ad263cd1fcbbdf23f47a8089e839b2f7665eecbb2f3993845226655f620''"

definition verifyWebhookSignature_catching ::
  "(string \<Rightarrow> string \<Rightarrow> string) \<Rightarrow> string option \<Rightarrow> string \<Rightarrow> string \<Rightarrow> js_error + bool" where
  "verifyWebhookSignature_catching hmac_hex env_secret payload signature =
     (let key = (case env_secret of None \<Rightarrow> fallback_secret | Some k \<Rightarrow> if k = [] then fallback_secret else k);
          expectedSignature = hmac_hex key payload;
          signatureHex = (if prefix ''sha256='' signature then drop 7 signature else signature)
      in case timingSafeEqual (hex_decode signatureHex) (hex_decode expectedSignature) of
           Inr b \<Rightarrow> Inr b
         | Inl e \<Rightarrow> Inr False)"

text \<open>
  The signature stage of the \<open>/webhook\<close> route: a missing or empty header or a missing
  body is answered 401 before the verifier is called; an exception of the verifier is
  caught by the route and answered 500.
\<close>

datatype signature_stage = Status401 | Status500 | Dispatch

definition webhook_signature_stage ::
  "(string \<Rightarrow> string \<Rightarrow> string) \<Rightarrow> string \<Rightarrow> string option \<Rightarrow> string option \<Rightarrow> signature_stage" where
  "webhook_signature_stage hmac_hex webhookSecret signature rawBody =
     (case signature of
        None \<Rightarrow> Status401
      | Some sg \<Rightarrow>
          if sg = [] then Status401
          else
            (case rawBody of
               None \<Rightarrow> Status401
             | Some body \<Rightarrow>
                 (case verifyWebhookSignature hmac_hex webhookSecret body sg of
                    Inl e \<Rightarrow> Status500
                  | Inr ok \<Rightarrow> if ok then Dispatch else Status401)))"

section \<open>A reference world\<close>

text \<open>
  One concrete outside world, on which the program can be run: GitHub and the model
  endpoint answer from fixed data, and git is the usual three trees (the commit of the
  current branch, the index, the files on disk) with named local branches, some of
  which track a branch of the remote. The remote has nothing new to pull. The disk is
  a list of directories and a map from the paths of regular files to their content;
  the current directory \<open>.\<close> always exists. Paths are relative paths of plain
  segments, on which \<open>path.join\<close> has nothing to normalise. The working copy has no
  ignore rules, hooks or links.
\<close>

record world =
  clock :: nat
  network_up :: bool
  wc_dirs :: "string list"
  wc_files :: "string \<rightharpoonup> string"
  wc_index :: "string \<rightharpoonup> string"
  wc_tracked :: "string list"
  wc_branches :: "string \<rightharpoonup> (string \<rightharpoonup> string)"
  wc_head :: string
  wc_commits :: nat
  wc_upstream :: "string list"
  gh_up :: bool
  gh_comments_up :: bool
  gh_files :: "github_file list"
  gh_contents :: "string \<rightharpoonup> string"
  gh_comments :: "string list"
  ai_reply :: "string option"
  ai_summary :: "string option"

text \<open>
  \<open>path.join\<close> and \<open>path.dirname\<close> on relative paths of plain segments, where
  \<open>path.join\<close> has nothing to normalise.
\<close>

definition world_join :: "string \<Rightarrow> string \<Rightarrow> string" where
  "world_join a b = a @ ''/'' @ b"

definition world_dirname :: "string \<Rightarrow> string" where
  "world_dirname p =
     (if CHR ''/'' \<in> set p then rev (tl (dropWhile (\<lambda>c. c \<noteq> CHR ''/'') (rev p))) else ''.'')"

definition head_tree :: "world \<Rightarrow> (string \<rightharpoonup> string)" where
  "head_tree w = (case wc_branches w (wc_head w) of Some t \<Rightarrow> t | None \<Rightarrow> Map.empty)"

text \<open>
  \<open>git status\<close>: a tracked path is modified when its staged content differs from the
  committed one or its content on disk from the staged one; it is created when it is
  staged and not committed.
\<close>

definition world_status :: "world \<Rightarrow> status_summary" where
  "world_status w =
     \<lparr>modified =
        filter (\<lambda>p. (head_tree w p \<noteq> None \<and> wc_index w p \<noteq> None \<and> head_tree w p \<noteq> wc_index w p)
                   \<or> (wc_files w p \<noteq> None \<and> wc_index w p \<noteq> None \<and> wc_files w p \<noteq> wc_index w p))
          (wc_tracked w),
      created = filter (\<lambda>p. wc_index w p \<noteq> None \<and> head_tree w p = None) (wc_tracked w)\<rparr>"

definition git_failure :: "string \<Rightarrow> js_error" where
  "git_failure msg = Error ''GitError'' msg"

text \<open>\<open>git add\<close> stages the given paths, or fails as a whole when one is not on disk.\<close>

definition world_add :: "string \<Rightarrow> string list \<Rightarrow> world \<Rightarrow> (js_error + unit) \<times> world" where
  "world_add dir fs w =
     (if list_all (\<lambda>f. wc_files w (world_join dir f) \<noteq> None) fs
      then (Inr (),
            w\<lparr>wc_index := fold (\<lambda>f ix. ix(world_join dir f := wc_files w (world_join dir f))) fs (wc_index w),
              wc_tracked := fold (\<lambda>f tr. List.insert (world_join dir f) tr) fs (wc_tracked w)\<rparr>)
      else (Inl (git_failure ''fatal: pathspec did not match any files''), w))"

definition world_commit :: "string \<Rightarrow> world \<Rightarrow> (js_error + string) \<times> world" where
  "world_commit msg w =
     (Inr (show_nat (wc_commits w)),
      w\<lparr>wc_branches := (wc_branches w)(wc_head w \<mapsto> wc_index w), wc_commits := Suc (wc_commits w)\<rparr>)"

definition world_checkout :: "string \<Rightarrow> world \<Rightarrow> (js_error + unit) \<times> world" where
  "world_checkout b w =
     (case wc_branches w b of
        None \<Rightarrow> (Inl (git_failure ''error: pathspec did not match any file(s) known to git''), w)
      | Some t \<Rightarrow> (Inr (), w\<lparr>wc_head := b, wc_index := t, wc_files := t\<rparr>))"

definition world_checkoutLocalBranch :: "string \<Rightarrow> world \<Rightarrow> (js_error + unit) \<times> world" where
  "world_checkoutLocalBranch b w =
     (case wc_branches w b of
        Some t \<Rightarrow> (Inl (git_failure ''fatal: a branch with that name already exists''), w)
      | None \<Rightarrow> (Inr (), w\<lparr>wc_branches := (wc_branches w)(b \<mapsto> head_tree w), wc_head := b\<rparr>))"

text \<open>
  \<open>git pull\<close> needs the remote and a current branch that tracks a branch of the
  remote.
\<close>

definition world_pull :: "world \<Rightarrow> (js_error + unit) \<times> world" where
  "world_pull w =
     (if \<not> network_up w then (Inl (git_failure ''fatal: unable to access the remote''), w)
      else if wc_head w \<notin> set (wc_upstream w)
      then (Inl (git_failure ''There is no tracking information for the current branch.''), w)
      else (Inr (), w))"

definition world_clone :: "string \<Rightarrow> world \<Rightarrow> (js_error + unit) \<times> world" where
  "world_clone path w =
     (if network_up w then (Inr (), w\<lparr>wc_dirs := path # wc_dirs w\<rparr>)
      else (Inl (git_failure ''fatal: unable to access the remote''), w))"

definition world_push :: "string \<Rightarrow> world \<Rightarrow> (js_error + unit) \<times> world" where
  "world_push b w =
     (if network_up w \<and> wc_branches w b \<noteq> None then (Inr (), w)
      else (Inl (git_failure ''fatal: unable to push''), w))"

text \<open>
  The directories above a path: its prefixes that end before a slash, the shortest
  first. The last one is the \<open>dirname\<close> of the path.
\<close>

fun slash_prefixes :: "string \<Rightarrow> string \<Rightarrow> string list" where
  "slash_prefixes acc [] = []"
| "slash_prefixes acc (c # cs) =
     (if c = CHR ''/'' then rev acc # slash_prefixes (c # acc) cs else slash_prefixes (c # acc) cs)"

definition ancestors :: "string \<Rightarrow> string list" where
  "ancestors p = slash_prefixes [] p"

text \<open>The errors of \<open>fs\<close> are \<open>Error\<close> instances: \<open>CODE: text, syscall 'path'\<close>.\<close>

definition fs_failure :: "string \<Rightarrow> string \<Rightarrow> string \<Rightarrow> js_error" where
  "fs_failure code syscall p = Error ''Error'' (code @ '', '' @ syscall @ '' '' @ [CHR 0x27] @ p @ [CHR 0x27])"

definition world_is_dir :: "string \<Rightarrow> world \<Rightarrow> bool" where
  "world_is_dir p w = (p = ''.'' \<or> p \<in> set (wc_dirs w))"

definition world_existsSync :: "string \<Rightarrow> world \<Rightarrow> bool" where
  "world_existsSync p w = (world_is_dir p w \<or> wc_files w p \<noteq> None)"

text \<open>
  \<open>fs.mkdirSync(p, {recursive: true})\<close> creates the directory and the missing
  directories above it; it fails when the path or a path above it is a regular file.
\<close>

definition world_mkdirSync :: "string \<Rightarrow> world \<Rightarrow> (js_error + unit) \<times> world" where
  "world_mkdirSync p w =
     (if wc_files w p \<noteq> None then (Inl (fs_failure ''EEXIST: file already exists'' ''mkdir'' p), w)
      else if list_ex (\<lambda>a. wc_files w a \<noteq> None) (ancestors p)
      then (Inl (fs_failure ''ENOTDIR: not a directory'' ''mkdir'' p), w)
      else (Inr (), w\<lparr>wc_dirs := p # ancestors p @ wc_dirs w\<rparr>))"

text \<open>
  \<open>fs.writeFileSync\<close> creates or replaces a regular file. It fails on a directory, below
  a regular file, and below a directory that does not exist.
\<close>

definition world_writeFileSync :: "string \<Rightarrow> string \<Rightarrow> world \<Rightarrow> (js_error + unit) \<times> world" where
  "world_writeFileSync p c w =
     (if p = [] then (Inl (fs_failure ''ENOENT: no such file or directory'' ''open'' p), w)
      else if last p = CHR ''/'' \<or> world_is_dir p w
      then (Inl (fs_failure ''EISDIR: illegal operation on a directory'' ''open'' p), w)
      else if list_ex (\<lambda>a. wc_files w a \<noteq> None) (ancestors p)
      then (Inl (fs_failure ''ENOTDIR: not a directory'' ''open'' p), w)
      else if \<not> list_all (\<lambda>a. world_is_dir a w) (ancestors p)
      then (Inl (fs_failure ''ENOENT: no such file or directory'' ''open'' p), w)
      else (Inr (), w\<lparr>wc_files := (wc_files w)(p \<mapsto> c)\<rparr>))"

text \<open>\<open>simpleGit\<close> refuses a base directory that does not exist.\<close>

definition world_simpleGit :: "string \<Rightarrow> world \<Rightarrow> (js_error + unit) \<times> world" where
  "world_simpleGit path w =
     (if world_is_dir path w then (Inr (), w)
      else (Inl (Error ''GitConstructError'' ''Cannot use simple-git on a directory that does not exist''), w))"

definition http_failure :: js_error where
  "http_failure = Error ''AxiosError'' ''Request failed with status code 500''"

definition world_completion :: "string option \<Rightarrow> world \<Rightarrow> (js_error + chat_completion) \<times> world" where
  "world_completion reply w =
     (case reply of
        None \<Rightarrow> (Inl (Error ''APIConnectionError'' ''Connection error.''), w)
      | Some txt \<Rightarrow> (Inr (ChatCompletion [ChatChoice (Some (ChatMessage (Some txt)))]), w))"

text \<open>\<open>JSON.parse\<close> of the reference world knows the texts of a table.\<close>

definition table_parse :: "(string \<times> json) list \<Rightarrow> string \<Rightarrow> js_error + json" where
  "table_parse table txt =
     (case map_of table txt of
        None \<Rightarrow> Inl (Error ''SyntaxError'' ''Unexpected token in JSON'')
      | Some v \<Rightarrow> Inr v)"

text \<open>
  \<open>Math.round(x * 100)\<close> in binary64 arithmetic. \<open>to_double\<close> rounds a rational to
  the nearest double, ties to the even mantissa of 53 bits (for the normal range, which
  holds every confidence and its product with 100); the number that \<open>JSON.parse\<close>
  gives is the double of the decimal in the text, the product is rounded again, and
  \<open>Math.round\<close> takes the floor of the double plus one half.
\<close>

definition round_half_even :: "rat \<Rightarrow> int" where
  "round_half_even q =
     (let f = \<lfloor>q\<rfloor>; r = q - of_int f
      in if r < 1 / 2 then f else if 1 / 2 < r then f + 1 else if even f then f else f + 1)"

text \<open>The exponent \<open>e\<close> with \<open>2^e \<le> q < 2^(e+1)\<close>, for a positive \<open>q\<close>.\<close>

definition binade :: "rat \<Rightarrow> int" where
  "binade q =
     (let (a, b) = quotient_of q;
          e = int (floorlog 2 (nat a)) - int (floorlog 2 (nat b))
      in if 2 powi e \<le> q then e else e - 1)"

definition to_double :: "rat \<Rightarrow> rat" where
  "to_double q =
     (if q = 0 then 0
      else (let e = binade \<bar>q\<bar> - 52
            in sgn q * of_int (round_half_even (\<bar>q\<bar> / 2 powi e)) * 2 powi e))"

definition double_percent :: "js_number \<Rightarrow> string" where
  "double_percent x =
     (case x of
        Finite q \<Rightarrow>
          (let n = \<lfloor>to_double (to_double q * 100) + 1 / 2\<rfloor>
           in if n < 0 then ''-'' @ show_nat (nat (- n)) else show_nat (nat n))
      | PosInfinity \<Rightarrow> ''Infinity''
      | NegInfinity \<Rightarrow> ''-Infinity'')"

definition reference :: "string \<Rightarrow> (string \<times> json) list \<Rightarrow> world platform" where
  "reference dir table =
     \<lparr>github_getPullRequestFiles = (\<lambda>owner repo n w. if gh_up w then (Inr (gh_files w), w) else (Inl http_failure, w)),
      github_getFileContent =
        (\<lambda>owner repo path ref w.
           case gh_contents w path of
             None \<Rightarrow> (Inl (Error ''AxiosError'' ''Request failed with status code 404''), w)
           | Some c \<Rightarrow> (Inr c, w)),
      github_createComment =
        (\<lambda>owner repo n body w.
           if gh_comments_up w then (Inr (), w\<lparr>gh_comments := gh_comments w @ [body]\<rparr>)
           else (Inl http_failure, w)),
      openai_create_analysis = (\<lambda>cmt pr files contents w. world_completion (ai_reply w) w),
      openai_create_summary = (\<lambda>chs w. world_completion (ai_summary w) w),
      JSON_parse = table_parse table,
      percent = double_percent,
      Date_now = clock,
      path_join = world_join,
      path_dirname = world_dirname,
      fs_existsSync = world_existsSync,
      fs_mkdirSync = world_mkdirSync,
      fs_writeFileSync = world_writeFileSync,
      simpleGit = world_simpleGit,
      git_clone = (\<lambda>url path. world_clone path),
      git_pull = world_pull,
      git_addConfig = (\<lambda>k v w. (Inr (), w)),
      git_checkout = world_checkout,
      git_checkoutLocalBranch = world_checkoutLocalBranch,
      git_add = world_add dir,
      git_status = (\<lambda>w. (Inr (world_status w), w)),
      git_commit = world_commit,
      git_push = (\<lambda>remote b. world_push b)\<rparr>"

section \<open>Properties the specification names\<close>

text \<open>The invariant \<open>0 \<le> confidence \<le> 1\<close> of a verdict.\<close>

definition unit_confidence :: "js_number \<Rightarrow> bool" where
  "unit_confidence n =
     (case n of Finite q \<Rightarrow> 0 \<le> q \<and> q \<le> 1 | PosInfinity \<Rightarrow> False | NegInfinity \<Rightarrow> False)"

text \<open>The safe default verdict: do not apply, no changes, confidence 0.\<close>

definition is_safe_default :: "ai_analysis_result \<Rightarrow> bool" where
  "is_safe_default a = (\<not> shouldApply a \<and> changes a = [] \<and> confidence a = Finite 0)"

text \<open>
  The reply shape of the specification, field by field:
  \<open>{shouldApply: bool, confidence: number in [0,1], reasoning: string,
  changes: [{filename, content, description, lineNumber?}]}\<close>, the three texts of a
  change being strings and its optional line number a number.
\<close>

definition is_json_string :: "json option \<Rightarrow> bool" where
  "is_json_string x = (case x of Some (JString s) \<Rightarrow> True | _ \<Rightarrow> False)"

definition is_json_number :: "json option \<Rightarrow> bool" where
  "is_json_number x = (case x of Some (JNumber n) \<Rightarrow> True | _ \<Rightarrow> False)"

definition spec_change_well_formed :: "json \<Rightarrow> bool" where
  "spec_change_well_formed change =
     (case change of
        JObject kvs \<Rightarrow>
          is_json_string (map_of kvs ''filename'') \<and> is_json_string (map_of kvs ''content'') \<and>
          is_json_string (map_of kvs ''description'') \<and>
          (map_of kvs ''lineNumber'' = None \<or> is_json_number (map_of kvs ''lineNumber''))
      | _ \<Rightarrow> False)"

definition spec_reply_well_formed :: "json \<Rightarrow> bool" where
  "spec_reply_well_formed reply =
     (case reply of
        JObject kvs \<Rightarrow>
          (case map_of kvs ''shouldApply'' of Some (JBool b) \<Rightarrow> True | _ \<Rightarrow> False) \<and>
          (case map_of kvs ''confidence'' of Some (JNumber n) \<Rightarrow> unit_confidence n | _ \<Rightarrow> False) \<and>
          is_json_string (map_of kvs ''reasoning'') \<and>
          (case map_of kvs ''changes'' of Some (JArray xs) \<Rightarrow> list_all spec_change_well_formed xs | _ \<Rightarrow> False)
      | _ \<Rightarrow> False)"

text \<open>The same shape without the test of the line number: what the validator tests.\<close>

definition tested_change_well_formed :: "json \<Rightarrow> bool" where
  "tested_change_well_formed change =
     (case change of
        JObject kvs \<Rightarrow>
          is_json_string (map_of kvs ''filename'') \<and> is_json_string (map_of kvs ''content'') \<and>
          is_json_string (map_of kvs ''description'')
      | _ \<Rightarrow> False)"

definition tested_reply_well_formed :: "json \<Rightarrow> bool" where
  "tested_reply_well_formed reply =
     (case reply of
        JObject kvs \<Rightarrow>
          (case map_of kvs ''shouldApply'' of Some (JBool b) \<Rightarrow> True | _ \<Rightarrow> False) \<and>
          (case map_of kvs ''confidence'' of Some (JNumber n) \<Rightarrow> unit_confidence n | _ \<Rightarrow> False) \<and>
          is_json_string (map_of kvs ''reasoning'') \<and>
          (case map_of kvs ''changes'' of Some (JArray xs) \<Rightarrow> list_all tested_change_well_formed xs | _ \<Rightarrow> False)
      | _ \<Rightarrow> False)"

text \<open>A reply whose only defect is a line number that is a string.\<close>

definition stray_reply_text :: string where
  \<open>stray_reply_text =
     ''{"shouldApply":true,"confidence":1,"reasoning":"typo","changes":[{"filename":"a.ts","content":"receive","description":"spelling","lineNumber":"seven"}]}''\<close>

definition stray_reply_json :: json where
  "stray_reply_json =
     JObject [(''shouldApply'', JBool True), (''confidence'', JNumber (Finite 1)), (''reasoning'', JString ''typo''),
       (''changes'', JArray [JObject [(''filename'', JString ''a.ts''), (''content'', JString ''receive''),
          (''description'', JString ''spelling''), (''lineNumber'', JString ''seven'')]])]"

text \<open>Reading the log.\<close>

fun is_git_call :: "call \<Rightarrow> bool" where
  "is_git_call (GetPullRequestFiles owner repo n) = False"
| "is_git_call (GetFileContent owner repo path ref) = False"
| "is_git_call (CreateComment owner repo n body) = False"
| "is_git_call ChatAnalysis = False"
| "is_git_call ChatSummary = False"
| "is_git_call c = True"

fun is_engine_call :: "call \<Rightarrow> bool" where
  "is_engine_call ChatAnalysis = True"
| "is_engine_call ChatSummary = True"
| "is_engine_call c = False"

fun is_comment_call :: "call \<Rightarrow> bool" where
  "is_comment_call (CreateComment owner repo n body) = True"
| "is_comment_call c = False"

fun is_fetch_call :: "call \<Rightarrow> bool" where
  "is_fetch_call (GetPullRequestFiles owner repo n) = True"
| "is_fetch_call (GetFileContent owner repo path ref) = True"
| "is_fetch_call c = False"

text \<open>The comments the program tried to post, in order, each with whether it was posted.\<close>

fun comment_events :: "event list \<Rightarrow> (string \<times> bool) list" where
  "comment_events [] = []"
| "comment_events ((CreateComment owner repo n body, ok) # es) = (body, ok) # comment_events es"
| "comment_events (e # es) = comment_events es"

definition posted_comments :: "event list \<Rightarrow> string list" where
  "posted_comments es = map fst (filter snd (comment_events es))"

definition log_of :: "'a \<times> 'w st \<Rightarrow> event list" where
  "log_of r = snd (snd r)"





text \<open>
  A git that creates a branch under the name it has just checked out: the checkout of
  \<open>b\<close> and the pull succeed, and then \<open>git checkout -b b\<close> succeeds too. Git refuses
  to create a branch that exists.
\<close>

definition creates_existing :: "'w platform \<Rightarrow> string \<Rightarrow> 'w \<Rightarrow> bool" where
  "creates_existing P b w =
     (case git_checkout P b w of
        (Inl e, w1) \<Rightarrow> False
      | (Inr u, w1) \<Rightarrow>
          (case git_pull P w1 of
             (Inl e, w2) \<Rightarrow> False
           | (Inr u', w2) \<Rightarrow> \<not> isl (fst (git_checkoutLocalBranch P b w2))))"

text \<open>A payload that passes every skip test of the program.\<close>

definition not_skipped :: "webhook_payload \<Rightarrow> bool" where
  "not_skipped payload =
     (action payload = ''created'' \<and>
      (case (comment payload, pull_request payload) of
         (Some cmt, Some pr) \<Rightarrow> comment_user_login cmt \<noteq> ''AI Comment Fixer Bot''
       | _ \<Rightarrow> False))"

text \<open>
  What a run adds to the log. \<open>emits m Q\<close>: from every state, \<open>m\<close> only appends to
  the log, and its result and the events it appends satisfy \<open>Q\<close>.
\<close>

definition emits :: "('a, 'w) async \<Rightarrow> (js_error + 'a \<Rightarrow> event list \<Rightarrow> bool) \<Rightarrow> bool" where
  "emits m Q = (\<forall>w t. \<exists>es. snd (snd (m (w, t))) = t @ es \<and> Q (fst (m (w, t))) es)"

abbreviation git_only :: "event list \<Rightarrow> bool" where
  "git_only es \<equiv> list_all (\<lambda>e. is_git_call (fst e)) es"

abbreviation fetch_only :: "event list \<Rightarrow> bool" where
  "fetch_only es \<equiv> list_all (\<lambda>e. is_fetch_call (fst e) \<or> fst e = ChatAnalysis) es"

definition comment_call :: "github_repository \<Rightarrow> github_pr \<Rightarrow> string \<Rightarrow> call" where
  "comment_call repo pr body = CreateComment (repo_owner_login repo) (repo_name repo) (pr_number pr) body"

definition files_call :: "github_repository \<Rightarrow> github_pr \<Rightarrow> call" where
  "files_call repo pr = GetPullRequestFiles (repo_owner_login repo) (repo_name repo) (pr_number pr)"

definition fetches :: "github_repository \<Rightarrow> github_pr \<Rightarrow> github_file list \<Rightarrow> call list" where
  "fetches repo pr files =
     map (\<lambda>f. GetFileContent (repo_owner_login repo) (repo_name repo) (file_filename f) (pr_head_sha pr)) files"

definition writes :: "'w platform \<Rightarrow> string \<Rightarrow> code_change list \<Rightarrow> event list" where
  "writes P rp cs = map (\<lambda>c. (FsWriteFile (path_join P rp (filename c)) (content c), True)) cs"

text \<open>
  The successful git steps of one fix, in the order the Working-Copy Manager takes them:
  the branch is created, every change is written, the files are staged, the status is
  read, the commit is made, the branch is pushed.
\<close>

definition milestones ::
  "'w platform \<Rightarrow> string \<Rightarrow> github_comment \<Rightarrow> github_pr \<Rightarrow> ai_analysis_result \<Rightarrow> string \<Rightarrow> event list" where
  "milestones P rp cmt pr a fb =
     [(GitCheckoutLocalBranch fb, True)] @ writes P rp (changes a) @
     [(GitAdd (map filename (changes a)), True), (GitStatus, True),
      (GitCommit (commit_message (pr_number pr) (comment_id cmt) (changes a)), True),
      (GitPush ''origin'' fb, True)]"

definition working_copy_path :: "'w platform \<Rightarrow> string \<Rightarrow> github_repository \<Rightarrow> string" where
  "working_copy_path P tempDir repo = path_join P tempDir (repo_owner_login repo @ ''-'' @ repo_name repo)"

text \<open>The four shapes of the log of an event that is not skipped.\<close>

definition applied_shape ::
  "'w platform \<Rightarrow> string \<Rightarrow> github_comment \<Rightarrow> github_pr \<Rightarrow> github_repository \<Rightarrow> ai_analysis_result
     \<Rightarrow> (js_error + unit) \<Rightarrow> event list \<Rightarrow> bool" where
  "applied_shape P rp cmt pr repo a r es =
     (\<exists>G fb summary k.
        es = G @ [(ChatSummary, k), (comment_call repo pr (success_message P summary pr a fb), \<not> isl r)] \<and>
        git_only G \<and> subseq (milestones P rp cmt pr a fb) G)"

definition fetch_failed_shape :: "github_repository \<Rightarrow> github_pr \<Rightarrow> event list \<Rightarrow> bool" where
  "fetch_failed_shape repo pr es =
     (\<exists>e ok. es = [(files_call repo pr, False), (comment_call repo pr (error_message_text e), ok)])"

definition declined_shape :: "'w platform \<Rightarrow> github_repository \<Rightarrow> github_pr \<Rightarrow> event list \<Rightarrow> bool" where
  "declined_shape P repo pr es =
     (\<exists>F a. fetch_only F \<and> \<not> shouldApply a \<and>
        (es = F @ [(comment_call repo pr (analysis_message P a), True)] \<or>
         (\<exists>e ok. es = F @ [(comment_call repo pr (analysis_message P a), False),
                           (comment_call repo pr (error_message_text e), ok)])))"

definition apply_failed_shape :: "github_repository \<Rightarrow> github_pr \<Rightarrow> event list \<Rightarrow> bool" where
  "apply_failed_shape repo pr es =
     (\<exists>F G e ok. fetch_only F \<and> git_only G \<and> es = F @ G @ [(comment_call repo pr (error_message_text e), ok)])"

definition applied_run_shape ::
  "'w platform \<Rightarrow> string \<Rightarrow> github_comment \<Rightarrow> github_pr \<Rightarrow> github_repository \<Rightarrow> event list \<Rightarrow> bool" where
  "applied_run_shape P rp cmt pr repo es =
     (\<exists>F Z r a. fetch_only F \<and> shouldApply a \<and> applied_shape P rp cmt pr repo a r Z \<and>
        ((\<not> isl r \<and> es = F @ Z) \<or>
         (isl r \<and> (\<exists>e ok. es = F @ Z @ [(comment_call repo pr (error_message_text e), ok)]))))"

definition run_shape ::
  "'w platform \<Rightarrow> string \<Rightarrow> github_comment \<Rightarrow> github_pr \<Rightarrow> github_repository \<Rightarrow> event list \<Rightarrow> bool" where
  "run_shape P rp cmt pr repo es =
     (fetch_failed_shape repo pr es \<or> declined_shape P repo pr es \<or> apply_failed_shape repo pr es \<or>
      applied_run_shape P rp cmt pr repo es)"

section \<open>Example data\<close>

definition example_comment :: github_comment where
  "example_comment = \<lparr>comment_id = 123456, comment_body = ''Fix the typo'', comment_user_login = ''reviewer123''\<rparr>"

definition example_pr :: github_pr where
  "example_pr = \<lparr>pr_number = 42, pr_title = ''Add user authentication feature'',
     pr_body = ''This PR adds user authentication with JWT tokens'', pr_head_sha = ''abc123def456'',
     pr_base_ref = ''main''\<rparr>"

definition example_repository :: github_repository where
  "example_repository = \<lparr>repo_name = ''repo'', repo_owner_login = ''example''\<rparr>"

definition example_payload :: webhook_payload where
  "example_payload = \<lparr>action = ''created'', comment = Some example_comment, pull_request = Some example_pr,
     repository = example_repository\<rparr>"

definition example_config :: config where
  "example_config = \<lparr>git_token = ''ghp_token'', git_userName = ''fixer-bot'', git_userEmail = ''bot@example.com''\<rparr>"

definition example_dir :: string where
  "example_dir = ''temp-repos/example-repo''"

definition fix_reply_text :: string where
  \<open>fix_reply_text =
     ''{"shouldApply":true,"confidence":0.9,"reasoning":"typo","changes":[{"filename":"a.ts","content":"receive","description":"spelling"}]}''\<close>

definition fix_reply_json :: json where
  "fix_reply_json =
     JObject [(''shouldApply'', JBool True), (''confidence'', JNumber (Finite (9 / 10))), (''reasoning'', JString ''typo''),
       (''changes'', JArray [JObject [(''filename'', JString ''a.ts''), (''content'', JString ''receive''),
          (''description'', JString ''spelling'')]])]"

definition decline_reply_text :: string where
  \<open>decline_reply_text =
     ''{"shouldApply":false,"confidence":0.4,"reasoning":"style","changes":[{"filename":"a.ts","content":"nicer","description":"rename"}]}''\<close>

definition decline_reply_json :: json where
  "decline_reply_json =
     JObject [(''shouldApply'', JBool False), (''confidence'', JNumber (Finite (4 / 10))), (''reasoning'', JString ''style''),
       (''changes'', JArray [JObject [(''filename'', JString ''a.ts''), (''content'', JString ''nicer''),
          (''description'', JString ''rename'')]])]"

definition example_table :: "(string \<times> json) list" where
  "example_table = [(fix_reply_text, fix_reply_json), (decline_reply_text, decline_reply_json),
     (stray_reply_text, stray_reply_json)]"

definition example_tree :: "string \<rightharpoonup> string" where
  "example_tree = [''temp-repos/example-repo/a.ts'' \<mapsto> ''recieve'']"

definition example_world :: world where
  "example_world =
     \<lparr>clock = 1700000000000, network_up = True, wc_dirs = [''temp-repos'', ''temp-repos/example-repo''],
      wc_files = example_tree, wc_index = example_tree, wc_tracked = [''temp-repos/example-repo/a.ts''],
      wc_branches = [''main'' \<mapsto> example_tree], wc_head = ''main'', wc_commits = 0,
      wc_upstream = [''main''], gh_up = True, gh_comments_up = True,
      gh_files = [\<lparr>file_filename = ''a.ts'', file_status = ''modified''\<rparr>],
      gh_contents = [''a.ts'' \<mapsto> ''recieve''], gh_comments = [],
      ai_reply = Some fix_reply_text, ai_summary = Some ''Fixed a typo.''\<rparr>"

abbreviation example_platform :: "world platform" where
  "example_platform \<equiv> reference example_dir example_table"

text \<open>
  What the user sees of one event. The attempts of a run are the comments it tried to
  post, in order, each with whether GitHub took it. \<open>post_error\<close> is the single attempt
  of \<open>handleError\<close> for an error, made in a given state of the world; \<open>post_or_report\<close>
  is the attempt to post a comment and, when GitHub refuses it, the attempt to post the
  error comment of that refusal in its place.
\<close>

definition post_error ::
  "'w platform \<Rightarrow> github_repository \<Rightarrow> github_pr \<Rightarrow> js_error \<Rightarrow> 'w \<Rightarrow> (string \<times> bool) list" where
  "post_error P repo pr e w =
     [(error_message_text e,
       \<not> isl (fst (github_createComment P (repo_owner_login repo) (repo_name repo) (pr_number pr)
                     (error_message_text e) w)))]"

definition post_or_report ::
  "'w platform \<Rightarrow> github_repository \<Rightarrow> github_pr \<Rightarrow> string \<Rightarrow> 'w \<Rightarrow> (string \<times> bool) list" where
  "post_or_report P repo pr body w =
     (case github_createComment P (repo_owner_login repo) (repo_name repo) (pr_number pr) body w of
        (Inr u, w') \<Rightarrow> [(body, True)]
      | (Inl e, w') \<Rightarrow> (body, False) # post_error P repo pr e w')"

definition attempts :: "'w platform \<Rightarrow> config \<Rightarrow> string \<Rightarrow> webhook_payload \<Rightarrow> 'w \<Rightarrow> (string \<times> bool) list" where
  "attempts P cfg tempDir payload w = comment_events (log_of (handleCommentEvent P cfg tempDir payload (w, [])))"

text \<open>The verdicts that the three example replies parse to.\<close>

definition fix_verdict :: ai_analysis_result where
  "fix_verdict =
     \<lparr>shouldApply = True,
      changes = [\<lparr>filename = ''a.ts'', content = ''receive'', lineNumber = None, description = ''spelling''\<rparr>],
      reasoning = ''typo'', confidence = Finite (9 / 10)\<rparr>"

definition decline_verdict :: ai_analysis_result where
  "decline_verdict =
     \<lparr>shouldApply = False,
      changes = [\<lparr>filename = ''a.ts'', content = ''nicer'', lineNumber = None, description = ''rename''\<rparr>],
      reasoning = ''style'', confidence = Finite (4 / 10)\<rparr>"

definition stray_verdict :: ai_analysis_result where
  "stray_verdict =
     \<lparr>shouldApply = True,
      changes = [\<lparr>filename = ''a.ts'', content = ''receive'', lineNumber = Some (JString ''seven''),
                  description = ''spelling''\<rparr>],
      reasoning = ''typo'', confidence = Finite 1\<rparr>"

text \<open>
  The ordering of a comment in a log \<open>pre @ comment # post\<close>: nothing of git comes
  after it, and a success comment (it opens with the check mark) comes after the
  successful git steps of the fix it reports.
\<close>

definition ordered_after_git ::
  "'w platform \<Rightarrow> string \<Rightarrow> github_comment \<Rightarrow> github_pr \<Rightarrow> event list \<Rightarrow> string \<Rightarrow> event list \<Rightarrow> bool" where
  "ordered_after_git P rp cmt pr pre body post =
     (list_all (\<lambda>e. \<not> is_git_call (fst e)) post \<and>
      (prefix check_mark body \<longrightarrow>
         (\<exists>a fb summary. body = success_message P summary pr a fb \<and> subseq (milestones P rp cmt pr a fb) pre)))"

text \<open>The log of the example event up to its comment, and the comment.\<close>

definition example_fix_branch :: string where
  "example_fix_branch = ''fix/pr-42-1700000000000''"

definition example_log_before_comment :: "event list" where
  "example_log_before_comment =
     [(GetPullRequestFiles ''example'' ''repo'' 42, True),
      (GetFileContent ''example'' ''repo'' ''a.ts'' ''abc123def456'', True),
      (ChatAnalysis, True),
      (NewSimpleGit ''temp-repos/example-repo'', True),
      (GitPull, True),
      (GitAddConfig ''user.name'' ''fixer-bot'', True),
      (GitAddConfig ''user.email'' ''bot@example.com'', True),
      (GitCheckout ''main'', True),
      (GitCheckout ''main'', True),
      (GitPull, True),
      (GitCheckoutLocalBranch ''fix/pr-42-1700000000000'', True),
      (FsWriteFile ''temp-repos/example-repo/a.ts'' ''receive'', True),
      (GitAdd [''a.ts''], True),
      (GitStatus, True),
      (GitCommit (commit_message 42 123456 (changes fix_verdict)), True),
      (GitPush ''origin'' ''fix/pr-42-1700000000000'', True),
      (ChatSummary, True)]"

definition example_success_body :: string where
  "example_success_body = success_message example_platform ''Fixed a typo.'' example_pr fix_verdict example_fix_branch"

definition declining_world :: world where
  "declining_world = example_world\<lparr>ai_reply := Some decline_reply_text\<rparr>"

definition example_log_of_analysis :: "event list" where
  "example_log_of_analysis =
     [(GetPullRequestFiles ''example'' ''repo'' 42, True),
      (GetFileContent ''example'' ''repo'' ''a.ts'' ''abc123def456'', True),
      (ChatAnalysis, True)]"

text \<open>
  Further inputs: a comment written under the name the bot is configured with, a world
  whose model reply has a string as line number, a world where the GitHub API is down
  for reading, and a file list one of whose files has no content to fetch.
\<close>

definition self_payload :: webhook_payload where
  "self_payload = example_payload\<lparr>comment := Some (example_comment\<lparr>comment_user_login := git_userName example_config\<rparr>)\<rparr>"

definition stray_world :: world where
  "stray_world = example_world\<lparr>ai_reply := Some stray_reply_text\<rparr>"

definition unreachable_world :: world where
  "unreachable_world = example_world\<lparr>gh_up := False\<rparr>"

definition two_files :: "github_file list" where
  "two_files = [\<lparr>file_filename = ''a.ts'', file_status = ''modified''\<rparr>,
                \<lparr>file_filename = ''b.ts'', file_status = ''added''\<rparr>]"

text \<open>
  A world whose git remote cannot be reached, and a world whose model declines and
  whose GitHub refuses every comment.
\<close>

definition offline_world :: world where
  "offline_world = example_world\<lparr>network_up := False\<rparr>"

definition refusing_world :: world where
  "refusing_world = example_world\<lparr>ai_reply := Some decline_reply_text, gh_comments_up := False\<rparr>"

subsection \<open>Applying a change set twice\<close>

text \<open>
  The files on disk after \<open>applyChanges\<close>, and the index and the tracked paths after
  \<open>git add\<close> of the changed files, as functions of the change set.
\<close>

definition written :: "string \<Rightarrow> code_change list \<Rightarrow> (string \<rightharpoonup> string) \<Rightarrow> (string \<rightharpoonup> string)" where
  "written dir cs m = fold (\<lambda>c m. m(world_join dir (filename c) \<mapsto> content c)) cs m"











text \<open>
  A path that \<open>fs.writeFileSync\<close> accepts: it is no directory, every path above it is
  a directory and none is a regular file. A change set is settled in a world when
  every file of it is there and can be written again.
\<close>

definition writable :: "string \<Rightarrow> world \<Rightarrow> bool" where
  "writable p w =
     (p \<noteq> [] \<and> last p \<noteq> CHR ''/'' \<and> \<not> world_is_dir p w \<and>
      list_all (\<lambda>a. world_is_dir a w \<and> wc_files w a = None) (ancestors p))"





section \<open>Proofs\<close>

subsection \<open>The Fix-Decision Engine\<close>

lemma and_then_Inr: "and_then m f = Inr b \<longleftrightarrow> (\<exists>a. m = Inr a \<and> f a = Inr b)"
  by (cases m) (simp_all add: and_then_def)

lemma expect_confidence_Inr: "expect_confidence x msg = Inr n \<Longrightarrow> unit_confidence n"
  by (cases n) (auto simp: expect_confidence_def unit_confidence_def split: option.splits json.splits if_splits)

lemma parseAIResponse_try_confidence:
  "parseAIResponse_try J r = Inr a \<Longrightarrow> unit_confidence (confidence a)"
  unfolding parseAIResponse_try_def and_then_Inr
  by (auto dest: expect_confidence_Inr)

lemma unit_confidence_safe_default: "unit_confidence (confidence (safe_default why))"
  by (simp add: safe_default_def unit_confidence_def)

lemma parseAIResponse_confidence:
  "\<exists>a. parseAIResponse J r = Inr a \<and> unit_confidence (confidence a)"
  unfolding parseAIResponse_def
  by (auto split: sum.splits simp: unit_confidence_safe_default dest: parseAIResponse_try_confidence)

lemma perform_run:
  "perform c f (w, t) = (case f w of (r, w') \<Rightarrow> (r, (w', t @ [(c, \<not> isl r)])))"
  by (simp add: perform_def)

text \<open>What \<open>OpenAIService.analyzeComment\<close> returns, by the outcome of the request.\<close>

lemma analyzeComment_result:
  "analyzeComment P cmt pr files fc s =
     (case perform ChatAnalysis (openai_create_analysis P cmt pr files fc) s of
        (Inl e, s') \<Rightarrow> (Inr (safe_default (''Error analyzing comment: '' @ message_of e)), s')
      | (Inr response, s') \<Rightarrow>
          (case first_content response of
             None \<Rightarrow> (Inr (safe_default ''Error analyzing comment: No response from OpenAI''), s')
           | Some result \<Rightarrow>
               if result = [] then (Inr (safe_default ''Error analyzing comment: No response from OpenAI''), s')
               else (parseAIResponse (JSON_parse P) result, s')))"
proof -
  have total: "\<And>result. \<exists>a. parseAIResponse (JSON_parse P) result = Inr a"
    using parseAIResponse_confidence[of "JSON_parse P"] by blast
  obtain r s' where p: "perform ChatAnalysis (openai_create_analysis P cmt pr files fc) s = (r, s')"
    by (cases "perform ChatAnalysis (openai_create_analysis P cmt pr files fc) s")
  show ?thesis
  proof (cases r)
    case (Inl e)
    then show ?thesis
      by (simp add: analyzeComment_def try_catch_def await_def resolve_def p)
  next
    case (Inr response)
    show ?thesis
    proof (cases "first_content response")
      case None
      then show ?thesis
        by (simp add: analyzeComment_def try_catch_def await_def resolve_def reject_def p Inr message_of_def)
    next
      case (Some result)
      obtain a where a: "parseAIResponse (JSON_parse P) result = Inr a" using total by blast
      show ?thesis
        by (simp add: analyzeComment_def try_catch_def await_def resolve_def reject_def sync_def p Inr Some a
            message_of_def)
    qed
  qed
qed

text \<open>
  C9. Every verdict of the Fix-Decision Engine has a confidence between 0 and 1:
  \<open>analyzeComment\<close> always returns a verdict, never an error, and the confidence of
  that verdict is a finite number in the unit interval, whatever the endpoint, the
  reply and \<open>JSON.parse\<close> do.
\<close>

theorem C9_confidence_in_unit_interval:
  "\<exists>a. fst (analyzeComment P cmt pr files fc s) = Inr a \<and> unit_confidence (confidence a)"
proof -
  obtain r s' where p: "perform ChatAnalysis (openai_create_analysis P cmt pr files fc) s = (r, s')"
    by (cases "perform ChatAnalysis (openai_create_analysis P cmt pr files fc) s")
  show ?thesis
    using parseAIResponse_confidence[of "JSON_parse P"]
    unfolding analyzeComment_result p
    by (auto split: sum.splits option.splits if_splits simp: unit_confidence_safe_default)
qed

subsection \<open>The log of a run\<close>

lemma emitsD:
  assumes "emits m Q" "m (w, t) = (r, (w', t'))"
  shows "\<exists>es. t' = t @ es \<and> Q r es"
  using assms unfolding emits_def by (metis fst_conv snd_conv)

lemma emits_weaken: "emits m Q \<Longrightarrow> (\<And>r es. Q r es \<Longrightarrow> Q' r es) \<Longrightarrow> emits m Q'"
  unfolding emits_def by blast

lemma emits_perform: "emits (perform c f) (\<lambda>r es. es = [(c, \<not> isl r)])"
  unfolding emits_def by (simp add: perform_def split: prod.splits)

lemma emits_resolve: "emits (resolve a) (\<lambda>r es. r = Inr a \<and> es = [])"
  unfolding emits_def by (simp add: resolve_def)

lemma emits_reject: "emits (reject e) (\<lambda>r es. r = Inl e \<and> es = [])"
  unfolding emits_def by (simp add: reject_def)

lemma emits_sync: "emits (sync x) (\<lambda>r es. r = x \<and> es = [])"
  unfolding emits_def by (simp add: sync_def)

lemma emits_await:
  assumes "emits m Q1" "\<And>a. emits (f a) (Q2 a)"
  shows "emits (await m f)
           (\<lambda>r es. (\<exists>e. r = Inl e \<and> Q1 (Inl e) es) \<or>
                    (\<exists>a es1 es2. es = es1 @ es2 \<and> Q1 (Inr a) es1 \<and> Q2 a r es2))"
  unfolding emits_def
proof (intro allI)
  fix w t
  obtain r1 w1 t1 where m: "m (w, t) = (r1, (w1, t1))" by (metis prod.exhaust)
  from emitsD[OF assms(1) m] obtain es1 where es1: "t1 = t @ es1" "Q1 r1 es1" by blast
  show "\<exists>es. snd (snd (await m f (w, t))) = t @ es \<and>
          ((\<exists>e. fst (await m f (w, t)) = Inl e \<and> Q1 (Inl e) es) \<or>
           (\<exists>a es1 es2. es = es1 @ es2 \<and> Q1 (Inr a) es1 \<and> Q2 a (fst (await m f (w, t))) es2))"
  proof (cases r1)
    case (Inl e)
    then show ?thesis using m es1 by (simp add: await_def)
  next
    case (Inr a)
    obtain r2 w2 t2 where f: "f a (w1, t1) = (r2, (w2, t2))" by (metis prod.exhaust)
    from emitsD[OF assms(2) f] obtain es2 where es2: "t2 = t1 @ es2" "Q2 a r2 es2" by blast
    show ?thesis using m Inr f es1 es2 by (auto simp: await_def)
  qed
qed

lemma emits_try_catch:
  assumes "emits m Q1" "\<And>e. emits (h e) (Q2 e)"
  shows "emits (try_catch m h)
           (\<lambda>r es. (\<exists>a. r = Inr a \<and> Q1 (Inr a) es) \<or>
                    (\<exists>e es1 es2. es = es1 @ es2 \<and> Q1 (Inl e) es1 \<and> Q2 e r es2))"
  unfolding emits_def
proof (intro allI)
  fix w t
  obtain r1 w1 t1 where m: "m (w, t) = (r1, (w1, t1))" by (metis prod.exhaust)
  from emitsD[OF assms(1) m] obtain es1 where es1: "t1 = t @ es1" "Q1 r1 es1" by blast
  show "\<exists>es. snd (snd (try_catch m h (w, t))) = t @ es \<and>
          ((\<exists>a. fst (try_catch m h (w, t)) = Inr a \<and> Q1 (Inr a) es) \<or>
           (\<exists>e es1 es2. es = es1 @ es2 \<and> Q1 (Inl e) es1 \<and> Q2 e (fst (try_catch m h (w, t))) es2))"
  proof (cases r1)
    case (Inr a)
    then show ?thesis using m es1 by (simp add: try_catch_def)
  next
    case (Inl e)
    obtain r2 w2 t2 where f: "h e (w1, t1) = (r2, (w2, t2))" by (metis prod.exhaust)
    from emitsD[OF assms(2) f] obtain es2 where es2: "t2 = t1 @ es2" "Q2 e r2 es2" by blast
    show ?thesis using m Inl f es1 es2 by (auto simp: try_catch_def)
  qed
qed

lemma emits_if_state:
  assumes "emits m1 Q" "emits m2 Q"
  shows "emits (\<lambda>s. if c s then m1 s else m2 s) Q"
  using assms unfolding emits_def by auto

lemma emits_let_state:
  assumes "\<And>x. emits (m x) Q"
  shows "emits (\<lambda>s. m (g s) s) Q"
  using assms unfolding emits_def by auto

lemma emitsI:
  assumes "\<And>w t r w' t'. m (w, t) = (r, (w', t')) \<Longrightarrow> \<exists>es. t' = t @ es \<and> Q r es"
  shows "emits m Q"
  unfolding emits_def
proof (intro allI)
  fix w t
  obtain r w' t' where m: "m (w, t) = (r, (w', t'))" by (metis prod.exhaust)
  from assms[OF m] show "\<exists>es. snd (snd (m (w, t))) = t @ es \<and> Q (fst (m (w, t))) es"
    by (simp add: m)
qed

lemma emits_setupRepository: "emits (setupRepository P cfg rp ow rn b) (\<lambda>r es. git_only es)"
  by (rule emitsI)
     (auto simp: setupRepository_def perform_run await_def try_catch_def Let_def
      split: prod.splits sum.splits if_splits)

lemma emits_createFixBranch:
  "emits (createFixBranch P b n)
     (\<lambda>r es. git_only es \<and>
        (\<forall>name. r = Inr name \<longrightarrow>
           es = [(GitCheckout b, True), (GitPull, True), (GitCheckoutLocalBranch name, True)]))"
  by (rule emitsI)
     (auto simp: createFixBranch_def perform_run await_def resolve_def Let_def
      split: prod.splits sum.splits if_splits)

lemma emits_applyChanges:
  "emits (applyChanges P rp cs) (\<lambda>r es. git_only es \<and> (r = Inr () \<longrightarrow> subseq (writes P rp cs) es))"
proof (induction cs)
  case Nil
  show ?case by (rule emitsI) (simp add: resolve_def writes_def)
next
  case (Cons c cs)
  let ?fp = "path_join P rp (filename c)"
  let ?dir = "path_dirname P ?fp"
  have mk: "emits (\<lambda>s. if \<not> fs_existsSync P ?dir (fst s) then perform (FsMkdir ?dir) (fs_mkdirSync P ?dir) s else resolve () s)
              (\<lambda>r es. git_only es)"
    by (rule emits_if_state) (rule emits_weaken[OF emits_perform], simp, rule emits_weaken[OF emits_resolve], simp)
  have wr: "emits (perform (FsWriteFile ?fp (content c)) (fs_writeFileSync P ?fp (content c)))
              (\<lambda>r es. es = [(FsWriteFile ?fp (content c), \<not> isl r)])"
    by (rule emits_perform)
  have step: "emits (await (perform (FsWriteFile ?fp (content c)) (fs_writeFileSync P ?fp (content c))) (\<lambda>_. applyChanges P rp cs))
      (\<lambda>r es. git_only es \<and> (r = Inr () \<longrightarrow> subseq (writes P rp (c # cs)) es))"
    by (rule emits_weaken[OF emits_await[OF wr Cons.IH]]) (auto simp: writes_def)
  show ?case
    unfolding applyChanges.simps Let_def
    by (rule emits_weaken[OF emits_await[OF mk step]]) (auto simp: writes_def intro: subseq_rev_drop_many list_emb_append2)
qed

lemma emits_commitChanges:
  "emits (commitChanges P n cid cs)
     (\<lambda>r es. git_only es \<and>
        (\<forall>sha. r = Inr sha \<longrightarrow>
           es = [(GitAdd (map filename cs), True), (GitStatus, True), (GitCommit (commit_message n cid cs), True)]))"
  by (rule emitsI)
     (auto simp: commitChanges_def perform_run await_def resolve_def reject_def Let_def
      split: prod.splits sum.splits if_splits)

lemma emits_pushChanges:
  "emits (pushChanges P b) (\<lambda>r es. es = [(GitPush ''origin'' b, \<not> isl r)])"
  unfolding pushChanges_def by (rule emits_perform)

lemma emits_generateChangeSummary:
  "emits (generateChangeSummary P cs) (\<lambda>r es. (\<exists>summary. r = Inr summary) \<and> (\<exists>k. es = [(ChatSummary, k)]))"
  by (rule emitsI)
     (auto simp: generateChangeSummary_def perform_run await_def try_catch_def resolve_def
      split: prod.splits sum.splits if_splits)

lemma emits_analyzeComment:
  "emits (analyzeComment P cmt pr files fc) (\<lambda>r es. (\<exists>a. r = Inr a) \<and> (\<exists>k. es = [(ChatAnalysis, k)]))"
  by (rule emitsI)
     (auto simp: analyzeComment_def perform_run await_def try_catch_def resolve_def reject_def sync_def
         parseAIResponse_def
      split: prod.splits sum.splits if_splits option.splits)

lemma emits_addAnalysisComment:
  "emits (addAnalysisComment P cmt pr repo a)
     (\<lambda>r es. es = [(CreateComment (repo_owner_login repo) (repo_name repo) (pr_number pr) (analysis_message P a), \<not> isl r)])"
  unfolding addAnalysisComment_def Let_def by (rule emits_perform)

lemma emits_addSuccessComment:
  "emits (addSuccessComment P cmt pr repo a fb)
     (\<lambda>r es. \<exists>summary k. es = [(ChatSummary, k),
        (CreateComment (repo_owner_login repo) (repo_name repo) (pr_number pr) (success_message P summary pr a fb), \<not> isl r)])"
  unfolding addSuccessComment_def Let_def
  by (rule emits_weaken[OF emits_await[OF emits_generateChangeSummary emits_perform]]) auto

lemma emits_handleError:
  assumes "comment payload = Some cmt" "pull_request payload = Some pr"
  shows "emits (handleError P payload e)
     (\<lambda>r es. r = Inr () \<and> (\<exists>ok. es = [(CreateComment (repo_owner_login (repository payload)) (repo_name (repository payload))
          (pr_number pr) (error_message_text e), ok)]))"
  by (rule emitsI)
     (auto simp: handleError_def assms perform_run try_catch_def resolve_def Let_def
      split: prod.splits sum.splits if_splits)

lemma emits_fetch_contents:
  "emits (fetch_contents P repo pr files fc)
     (\<lambda>r es. (\<exists>fc'. r = Inr fc') \<and> map fst es = fetches repo pr files)"
proof (induction files arbitrary: fc)
  case Nil
  show ?case by (rule emitsI) (simp add: resolve_def fetches_def)
next
  case (Cons f files)
  let ?c = "GetFileContent (repo_owner_login repo) (repo_name repo) (file_filename f) (pr_head_sha pr)"
  have one: "emits (try_catch
          (await (perform ?c
                    (github_getFileContent P (repo_owner_login repo) (repo_name repo) (file_filename f) (pr_head_sha pr)))
             (\<lambda>c. resolve (AList.update (file_filename f) c fc)))
          (\<lambda>error. resolve (AList.update (file_filename f) ''File content not available'' fc)))
        (\<lambda>r es. (\<exists>fc'. r = Inr fc') \<and> map fst es = [?c])"
    by (rule emitsI)
       (auto simp: perform_run await_def try_catch_def resolve_def split: prod.splits sum.splits)
  show ?case
    unfolding fetch_contents.simps
    by (rule emits_weaken[OF emits_await[OF one Cons.IH]]) (auto simp: fetches_def)
qed

lemma fetches_fetch_only: "map fst es = fetches repo pr files \<Longrightarrow> fetch_only es"
proof (induction es arbitrary: files)
  case Nil
  then show ?case by simp
next
  case (Cons e es)
  then obtain f fs where "files = f # fs" by (cases files) (auto simp: fetches_def)
  with Cons show ?case by (auto simp: fetches_def)
qed

lemma emits_processor_analyzeComment:
  "emits (processor_analyzeComment P cmt pr repo)
     (\<lambda>r es. (\<exists>e. r = Inl e \<and> es = [(files_call repo pr, False)]) \<or>
              (\<exists>a. r = Inr a) \<and> fetch_only es \<and> es \<noteq> [] \<and> fst (last es) = ChatAnalysis)"
proof -
  have tail: "\<And>files. emits (await (fetch_contents P repo pr files []) (\<lambda>fileContents. analyzeComment P cmt pr files fileContents))
       (\<lambda>r es. (\<exists>a. r = Inr a) \<and> fetch_only es \<and> es \<noteq> [] \<and> fst (last es) = ChatAnalysis)"
    by (rule emits_weaken[OF emits_await[OF emits_fetch_contents emits_analyzeComment]])
       (auto dest: fetches_fetch_only)
  show ?thesis
    unfolding processor_analyzeComment_def
    by (rule emits_weaken[OF emits_await[OF emits_perform tail]])
       (auto simp: files_call_def)
qed

lemma milestones_embed:
  assumes "subseq ws W"
  shows "subseq ([x] @ ws @ rest) ([a, b, x] @ W @ rest)"
proof -
  have "subseq (ws @ rest) (W @ rest)" using assms by (simp add: list_emb_append_mono)
  then have "subseq (x # ws @ rest) (x # W @ rest)" by simp
  then have "subseq (x # ws @ rest) (a # b # x # W @ rest)" by (rule list_emb_Cons[OF list_emb_Cons])
  then show ?thesis by simp
qed

lemma applied_shape_prepend:
  assumes "applied_shape P rp cmt pr repo a r es2" "git_only es1"
  shows "applied_shape P rp cmt pr repo a r (es1 @ es2)"
proof -
  from assms(1) obtain G fb summary k where
    e: "es2 = G @ [(ChatSummary, k), (comment_call repo pr (success_message P summary pr a fb), \<not> isl r)]"
    and g: "git_only G" and m: "subseq (milestones P rp cmt pr a fb) G"
    unfolding applied_shape_def by blast
  have "es1 @ es2 = (es1 @ G) @ [(ChatSummary, k), (comment_call repo pr (success_message P summary pr a fb), \<not> isl r)]"
    using e by simp
  moreover have "git_only (es1 @ G)" using g assms(2) by simp
  moreover have "subseq (milestones P rp cmt pr a fb) (es1 @ G)" using m by (simp add: list_emb_append2)
  ultimately show ?thesis unfolding applied_shape_def by blast
qed

lemma applied_shape_branch:
  assumes "es2 = W @ [(GitAdd (map filename (changes a)), True), (GitStatus, True),
          (GitCommit (commit_message (pr_number pr) (comment_id cmt) (changes a)), True),
          (GitPush ''origin'' fb, True), (ChatSummary, k), (comment_call repo pr (success_message P summary pr a fb), \<not> isl r)]"
    and "git_only W" and "subseq (writes P rp (changes a)) W"
  shows "applied_shape P rp cmt pr repo a r
           ([(GitCheckout b, True), (GitPull, True), (GitCheckoutLocalBranch fb, True)] @ es2)"
proof -
  let ?tl = "[(GitAdd (map filename (changes a)), True), (GitStatus, True),
          (GitCommit (commit_message (pr_number pr) (comment_id cmt) (changes a)), True),
          (GitPush ''origin'' fb, True)]"
  let ?G = "[(GitCheckout b, True), (GitPull, True), (GitCheckoutLocalBranch fb, True)] @ W @ ?tl"
  have 1: "[(GitCheckout b, True), (GitPull, True), (GitCheckoutLocalBranch fb, True)] @ es2 =
      ?G @ [(ChatSummary, k), (comment_call repo pr (success_message P summary pr a fb), \<not> isl r)]"
    using assms(1) by simp
  have 2: "git_only ?G" using assms(2) by simp
  have 3: "subseq (milestones P rp cmt pr a fb) ?G"
    unfolding milestones_def by (rule milestones_embed[OF assms(3)])
  show ?thesis unfolding applied_shape_def using 1 2 3 by blast
qed

lemma emits_processor_applyChanges:
  "emits (processor_applyChanges P cfg tempDir cmt pr repo a)
     (\<lambda>r es. (isl r \<and> git_only es) \<or>
              applied_shape P (path_join P tempDir (repo_owner_login repo @ ''-'' @ repo_name repo)) cmt pr repo a r es)"
proof -
  let ?rp = "path_join P tempDir (repo_owner_login repo @ ''-'' @ repo_name repo)"
  let ?Q5 = "\<lambda>fb r es. (isl r \<and> es = [(GitPush ''origin'' fb, False)]) \<or>
      (\<exists>summary k. es = [(GitPush ''origin'' fb, True), (ChatSummary, k), (comment_call repo pr (success_message P summary pr a fb), \<not> isl r)])"
  have s5: "\<And>fb. emits (await (pushChanges P fb) (\<lambda>_. addSuccessComment P cmt pr repo a fb)) (?Q5 fb)"
    by (rule emits_weaken[OF emits_await[OF emits_pushChanges emits_addSuccessComment]])
       (auto simp: comment_call_def)
  let ?Q4 = "\<lambda>fb r es. (isl r \<and> git_only es) \<or>
      (\<exists>summary k. es = [(GitAdd (map filename (changes a)), True), (GitStatus, True),
          (GitCommit (commit_message (pr_number pr) (comment_id cmt) (changes a)), True),
          (GitPush ''origin'' fb, True), (ChatSummary, k), (comment_call repo pr (success_message P summary pr a fb), \<not> isl r)])"
  have s4: "\<And>fb. emits (await (commitChanges P (pr_number pr) (comment_id cmt) (changes a)) (\<lambda>commitSha.
         await (pushChanges P fb) (\<lambda>_. addSuccessComment P cmt pr repo a fb))) (?Q4 fb)"
    by (rule emits_weaken[OF emits_await[OF emits_commitChanges s5]]) auto
  let ?Q3 = "\<lambda>fb r es. (isl r \<and> git_only es) \<or>
      (\<exists>W summary k. es = W @ [(GitAdd (map filename (changes a)), True), (GitStatus, True),
          (GitCommit (commit_message (pr_number pr) (comment_id cmt) (changes a)), True),
          (GitPush ''origin'' fb, True), (ChatSummary, k), (comment_call repo pr (success_message P summary pr a fb), \<not> isl r)]
          \<and> git_only W \<and> subseq (writes P ?rp (changes a)) W)"
  have s3: "\<And>fb. emits (await (applyChanges P ?rp (changes a)) (\<lambda>_.
         await (commitChanges P (pr_number pr) (comment_id cmt) (changes a)) (\<lambda>commitSha.
         await (pushChanges P fb) (\<lambda>_. addSuccessComment P cmt pr repo a fb)))) (?Q3 fb)"
    by (rule emits_weaken[OF emits_await[OF emits_applyChanges s4]]) auto
  let ?Q2 = "\<lambda>r es. (isl r \<and> git_only es) \<or> applied_shape P ?rp cmt pr repo a r es"
  have s2: "emits (await (createFixBranch P (pr_base_ref pr) (pr_number pr)) (\<lambda>fixBranch.
         await (applyChanges P ?rp (changes a)) (\<lambda>_.
         await (commitChanges P (pr_number pr) (comment_id cmt) (changes a)) (\<lambda>commitSha.
         await (pushChanges P fixBranch) (\<lambda>_. addSuccessComment P cmt pr repo a fixBranch))))) ?Q2"
    by (rule emits_weaken[OF emits_await[OF emits_createFixBranch s3]])
       (auto intro: applied_shape_branch[simplified])
  have s1: "emits (await (setupRepository P cfg ?rp (repo_owner_login repo) (repo_name repo) (pr_base_ref pr)) (\<lambda>_.
         await (createFixBranch P (pr_base_ref pr) (pr_number pr)) (\<lambda>fixBranch.
         await (applyChanges P ?rp (changes a)) (\<lambda>_.
         await (commitChanges P (pr_number pr) (comment_id cmt) (changes a)) (\<lambda>commitSha.
         await (pushChanges P fixBranch) (\<lambda>_. addSuccessComment P cmt pr repo a fixBranch)))))) ?Q2"
    by (rule emits_weaken[OF emits_await[OF emits_setupRepository s2]])
       (auto intro: applied_shape_prepend)
  have s0: "emits (try_catch (await (setupRepository P cfg ?rp (repo_owner_login repo) (repo_name repo) (pr_base_ref pr)) (\<lambda>_.
         await (createFixBranch P (pr_base_ref pr) (pr_number pr)) (\<lambda>fixBranch.
         await (applyChanges P ?rp (changes a)) (\<lambda>_.
         await (commitChanges P (pr_number pr) (comment_id cmt) (changes a)) (\<lambda>commitSha.
         await (pushChanges P fixBranch) (\<lambda>_. addSuccessComment P cmt pr repo a fixBranch))))))
         (\<lambda>error. reject error)) ?Q2"
    by (rule emits_weaken[OF emits_try_catch[OF s1 emits_reject]]) auto
  show ?thesis
    unfolding processor_applyChanges_def Let_def
    by (rule emits_weaken[OF emits_await[OF emits_perform s0]])
       (auto intro: applied_shape_prepend[where ?es1.0="[x]" for x, simplified])
qed

lemma fetch_failedI:
  "es = [(files_call repo pr, False), (comment_call repo pr (error_message_text e), ok)]
   \<Longrightarrow> run_shape P rp cmt pr repo es"
  unfolding run_shape_def fetch_failed_shape_def by blast

lemma declinedI1:
  "fetch_only F \<Longrightarrow> \<not> shouldApply a \<Longrightarrow> es = F @ [(comment_call repo pr (analysis_message P a), True)]
   \<Longrightarrow> run_shape P rp cmt pr repo es"
  unfolding run_shape_def declined_shape_def by blast

lemma declinedI2:
  "fetch_only F \<Longrightarrow> \<not> shouldApply a \<Longrightarrow>
   es = F @ [(comment_call repo pr (analysis_message P a), False), (comment_call repo pr (error_message_text e), ok)]
   \<Longrightarrow> run_shape P rp cmt pr repo es"
  unfolding run_shape_def declined_shape_def by blast

lemma apply_failedI:
  "fetch_only F \<Longrightarrow> git_only G \<Longrightarrow> es = F @ G @ [(comment_call repo pr (error_message_text e), ok)]
   \<Longrightarrow> run_shape P rp cmt pr repo es"
  unfolding run_shape_def apply_failed_shape_def by blast

lemma appliedI1:
  "fetch_only F \<Longrightarrow> shouldApply a \<Longrightarrow> applied_shape P rp cmt pr repo a r Z \<Longrightarrow> \<not> isl r \<Longrightarrow> es = F @ Z
   \<Longrightarrow> run_shape P rp cmt pr repo es"
  unfolding run_shape_def applied_run_shape_def by blast

lemma appliedI2:
  "fetch_only F \<Longrightarrow> shouldApply a \<Longrightarrow> applied_shape P rp cmt pr repo a r Z \<Longrightarrow> isl r \<Longrightarrow>
   es = F @ Z @ [(comment_call repo pr (error_message_text e), ok)]
   \<Longrightarrow> run_shape P rp cmt pr repo es"
  unfolding run_shape_def applied_run_shape_def by blast

lemma emits_processComment:
  assumes c: "comment payload = Some cmt" and p: "pull_request payload = Some pr"
    and nb: "comment_user_login cmt \<noteq> ''AI Comment Fixer Bot''"
  shows "emits (processComment P cfg tempDir payload)
     (\<lambda>r es. r = Inr () \<and>
        run_shape P (path_join P tempDir (repo_owner_login (repository payload) @ ''-'' @ repo_name (repository payload)))
          cmt pr (repository payload) es)"
proof -
  let ?repo = "repository payload"
  let ?rp = "path_join P tempDir (repo_owner_login ?repo @ ''-'' @ repo_name ?repo)"
  let ?Qa = "\<lambda>a r es. (\<not> shouldApply a \<and> es = [(comment_call ?repo pr (analysis_message P a), \<not> isl r)]) \<or>
       (shouldApply a \<and> ((isl r \<and> git_only es) \<or> applied_shape P ?rp cmt pr ?repo a r es))"
  have branch: "\<And>a. emits (if \<not> shouldApply a
                then addAnalysisComment P cmt pr ?repo a
                else processor_applyChanges P cfg tempDir cmt pr ?repo a) (?Qa a)"
  proof -
    fix a
    show "emits (if \<not> shouldApply a
                then addAnalysisComment P cmt pr ?repo a
                else processor_applyChanges P cfg tempDir cmt pr ?repo a) (?Qa a)"
    proof (cases "shouldApply a")
      case True
      then show ?thesis
        by (simp, intro emits_weaken[OF emits_processor_applyChanges]) simp
    next
      case False
      then show ?thesis
        by (simp, intro emits_weaken[OF emits_addAnalysisComment]) (simp add: comment_call_def)
    qed
  qed
  let ?Qb = "\<lambda>r es. (\<exists>e. r = Inl e \<and> es = [(files_call ?repo pr, False)]) \<or>
      (\<exists>a F es2. es = F @ es2 \<and> fetch_only F \<and> ?Qa a r es2)"
  have body: "emits (await (processor_analyzeComment P cmt pr ?repo) (\<lambda>analysis.
                if \<not> shouldApply analysis
                then addAnalysisComment P cmt pr ?repo analysis
                else processor_applyChanges P cfg tempDir cmt pr ?repo analysis)) ?Qb"
    by (rule emits_weaken[OF emits_await[OF emits_processor_analyzeComment branch]]) blast
  have all: "emits (try_catch (await (processor_analyzeComment P cmt pr ?repo) (\<lambda>analysis.
                if \<not> shouldApply analysis
                then addAnalysisComment P cmt pr ?repo analysis
                else processor_applyChanges P cfg tempDir cmt pr ?repo analysis))
              (\<lambda>error. handleError P payload error))
        (\<lambda>r es. (\<exists>u. r = Inr u \<and> ?Qb (Inr u) es) \<or>
                    (\<exists>e es1 es2. es = es1 @ es2 \<and> ?Qb (Inl e) es1 \<and>
                       (r = Inr () \<and> (\<exists>ok. es2 = [(CreateComment (repo_owner_login ?repo) (repo_name ?repo)
          (pr_number pr) (error_message_text e), ok)]))))"
    by (rule emits_try_catch[OF body emits_handleError[OF c p]])
  show ?thesis
    unfolding processComment_def c p using nb
    apply (simp only: prod.case option.case if_False)
  proof (rule emits_weaken[OF all], elim disjE exE conjE, goal_cases)
    case (1 r es u e)
    then show ?case by simp
  next
    case (2 r es u a F es2)
    have "run_shape P ?rp cmt pr ?repo es"
      by (rule declinedI1[OF \<open>fetch_only F\<close> \<open>\<not> shouldApply a\<close>]) (use 2 in simp)
    with 2 show ?case by simp
  next
    case (3 r es u a F es2)
    then show ?case by simp
  next
    case (4 r es u a F es2)
    have "run_shape P ?rp cmt pr ?repo es"
      by (rule appliedI1[OF \<open>fetch_only F\<close> \<open>shouldApply a\<close> \<open>applied_shape P ?rp cmt pr ?repo a (Inr u) es2\<close>]) (use 4 in simp_all)
    with 4 show ?case by simp
  next
    case (5 r es e es1 es2 ea ok)
    have "run_shape P ?rp cmt pr ?repo es"
      by (rule fetch_failedI[where e=e and ok=ok]) (use 5 in \<open>simp add: comment_call_def\<close>)
    with 5 show ?case by simp
  next
    case (6 r es e es1 es2 a F es3 ok)
    have "run_shape P ?rp cmt pr ?repo es"
      by (rule declinedI2[OF \<open>fetch_only F\<close> \<open>\<not> shouldApply a\<close>, where e=e and ok=ok])
         (use 6 in \<open>simp add: comment_call_def\<close>)
    with 6 show ?case by simp
  next
    case (7 r es e es1 es2 a F es3 ok)
    have "run_shape P ?rp cmt pr ?repo es"
      by (rule apply_failedI[OF \<open>fetch_only F\<close> \<open>git_only es3\<close>, where e=e and ok=ok])
         (use 7 in \<open>simp add: comment_call_def\<close>)
    with 7 show ?case by simp
  next
    case (8 r es e es1 es2 a F es3 ok)
    have "run_shape P ?rp cmt pr ?repo es"
      by (rule appliedI2[OF \<open>fetch_only F\<close> \<open>shouldApply a\<close> \<open>applied_shape P ?rp cmt pr ?repo a (Inl e) es3\<close>, where e=e and ok=ok])
         (use 8 in \<open>simp_all add: comment_call_def\<close>)
    with 8 show ?case by simp
  qed
qed

lemma comment_events_append: "comment_events (xs @ ys) = comment_events xs @ comment_events ys"
  by (induction xs rule: comment_events.induct) simp_all

lemma comment_events_git_only: "git_only es \<Longrightarrow> comment_events es = []"
  by (induction es rule: comment_events.induct) simp_all

lemma comment_events_fetch_only: "fetch_only es \<Longrightarrow> comment_events es = []"
  by (induction es rule: comment_events.induct) simp_all

lemma comment_events_call [simp]: "comment_events [(comment_call repo pr body, ok)] = [(body, ok)]"
  by (simp add: comment_call_def)

lemma comment_events_call2 [simp]:
  "comment_events ((comment_call repo pr body, ok) # es) = (body, ok) # comment_events es"
  by (simp add: comment_call_def)

lemma emits_handleCommentEvent:
  assumes "not_skipped payload" "comment payload = Some cmt" "pull_request payload = Some pr"
  shows "emits (handleCommentEvent P cfg tempDir payload)
           (\<lambda>r es. r = Inr () \<and> run_shape P (working_copy_path P tempDir (repository payload)) cmt pr (repository payload) es)"
proof -
  have nb: "comment_user_login cmt \<noteq> ''AI Comment Fixer Bot''" and act: "action payload = ''created''"
    using assms by (simp_all add: not_skipped_def)
  have "emits (try_catch (processComment P cfg tempDir payload) (\<lambda>error. resolve ()))
          (\<lambda>r es. r = Inr () \<and> run_shape P (working_copy_path P tempDir (repository payload)) cmt pr (repository payload) es)"
    by (rule emits_weaken[OF emits_try_catch[OF emits_processComment[OF assms(2,3) nb] emits_resolve]])
       (auto simp: working_copy_path_def)
  then show ?thesis
    by (simp add: handleCommentEvent_def act assms(3))
qed

lemma emits_log:
  assumes "emits m Q"
  shows "Q (fst (m (w, []))) (log_of (m (w, [])))"
  using assms unfolding emits_def log_of_def by (metis append_Nil)

lemma sub_here: "sublist xs (xs @ s)"
  by (rule sublist_append_rightI)

lemma sub_skip: "sublist xs ys \<Longrightarrow> sublist xs (p @ ys)"
  unfolding sublist_def by (metis append.assoc)

lemma success_names_branch: "sublist fb (success_message P summary pr a fb)"
  unfolding success_message_def by (rule sub_here | rule sub_skip)+

lemma error_names_message: "sublist (message_of e) (error_message_text e)"
  unfolding error_message_text_def by (rule sub_here | rule sub_skip)+

lemma error_names_class: "sublist (class_of e) (error_message_text e)"
  unfolding error_message_text_def by (rule sub_here | rule sub_skip)+

lemma join_lines_member: "x \<in> set xs \<Longrightarrow> sublist x (join_lines xs)"
proof (induction xs rule: join_lines.induct)
  case 1
  then show ?case by simp
next
  case (2 y)
  then show ?case by simp
next
  case (3 y z zs)
  show ?case
  proof (cases "x = y")
    case True
    then show ?thesis by (simp add: sub_here)
  next
    case False
    with 3 have "sublist x (join_lines (z # zs))" by simp
    then show ?thesis by (simp del: join_lines.simps(3) add: join_lines.simps(3) sub_skip)
  qed
qed

lemma analysis_echoes_changes:
  assumes "c \<in> set (changes a)"
  shows "sublist (change_line c) (analysis_message P a)"
proof -
  have ne: "length (changes a) > 0" using assms by (cases "changes a") auto
  have "sublist (change_line c) (join_lines (map change_line (changes a)))"
    using assms by (intro join_lines_member) simp
  then have "sublist (change_line c) (join_lines (map change_line (changes a)) @ nl @ nl @ ''---'' @ nl @
     ''*This analysis was performed by the AI Comment Fixer Bot*'')"
    unfolding sublist_def by (metis append.assoc)
  then show ?thesis
    unfolding analysis_message_def using ne
    apply (simp only: if_True append_assoc)
    apply (assumption | rule sub_skip)+
    done
qed

subsection \<open>Running the reference world\<close>

lemmas run_defs =
  handleCommentEvent_def processComment_def processor_analyzeComment_def processor_applyChanges_def
  analyzeComment_def generateChangeSummary_def addAnalysisComment_def addSuccessComment_def handleError_def
  setupRepository_def createFixBranch_def commitChanges_def pushChanges_def
  await_def try_catch_def resolve_def reject_def sync_def perform_def Let_def
  reference_def world_completion_def first_content_def
  world_add_def world_commit_def world_checkout_def world_checkoutLocalBranch_def world_pull_def
  world_clone_def world_push_def world_writeFileSync_def world_status_def head_tree_def
  world_join_def world_dirname_def world_existsSync_def world_is_dir_def world_mkdirSync_def
  world_simpleGit_def ancestors_def fs_failure_def

lemmas example_defs =
  example_world_def example_repository_def example_pr_def example_comment_def example_payload_def
  example_config_def example_tree_def example_dir_def

lemma show_nat_42: "show_nat 42 = ''42''"
  by (simp add: show_nat.simps digit_char_def)

lemma show_nat_123456: "show_nat 123456 = ''123456''"
  by (simp add: show_nat.simps digit_char_def)

lemma show_nat_clock: "show_nat 1700000000000 = ''1700000000000''"
  by (simp add: show_nat.simps digit_char_def)

lemma fix_match: "json_match fix_reply_text = Some fix_reply_text"
  by (simp add: json_match_def fix_reply_text_def)

lemma decline_match: "json_match decline_reply_text = Some decline_reply_text"
  by (simp add: json_match_def decline_reply_text_def)

lemma stray_match: "json_match stray_reply_text = Some stray_reply_text"
  by (simp add: json_match_def stray_reply_text_def)

lemma reply_texts_differ:
  "fix_reply_text \<noteq> decline_reply_text" "fix_reply_text \<noteq> stray_reply_text"
  "decline_reply_text \<noteq> stray_reply_text" "decline_reply_text \<noteq> fix_reply_text"
  "stray_reply_text \<noteq> fix_reply_text" "stray_reply_text \<noteq> decline_reply_text"
  "fix_reply_text \<noteq> []" "decline_reply_text \<noteq> []" "stray_reply_text \<noteq> []"
  by (simp_all add: fix_reply_text_def decline_reply_text_def stray_reply_text_def)

lemmas parse_defs =
  parseAIResponse_def parseAIResponse_try_def table_parse_def and_then_def example_table_def
  expect_boolean_def expect_confidence_def expect_string_def expect_array_def validate_change_def

lemma fix_parse: "parseAIResponse (table_parse example_table) fix_reply_text = Inr fix_verdict"
  by (simp add: parse_defs fix_match fix_reply_json_def fix_verdict_def)

lemma decline_parse: "parseAIResponse (table_parse example_table) decline_reply_text = Inr decline_verdict"
  by (simp add: parse_defs decline_match reply_texts_differ decline_reply_json_def decline_verdict_def)

lemma stray_parse: "parseAIResponse (table_parse example_table) stray_reply_text = Inr stray_verdict"
  by (simp add: parse_defs stray_match reply_texts_differ stray_reply_json_def stray_verdict_def)

lemmas eval_simps =
  run_defs example_defs fix_parse decline_parse stray_parse reply_texts_differ log_of_def fix_branch_name_def
  show_nat_42 show_nat_123456 show_nat_clock

subsection \<open>Comments posted per event\<close>

lemma try_catch_rethrow: "try_catch m (\<lambda>error. reject error) = m"
  by (rule ext) (simp add: try_catch_def reject_def split: prod.splits sum.splits)

lemma await_assoc: "await (await m f) g = await m (\<lambda>a. await (f a) g)"
  by (rule ext) (simp add: await_def split: prod.splits sum.splits)

lemma await_resolve: "await (resolve a) f = f a"
  by (rule ext) (simp add: await_def resolve_def)

lemma processor_applyChanges_steps:
  "processor_applyChanges P cfg tempDir cmt pr repo a =
     await (fix_steps P cfg tempDir cmt pr repo a) (\<lambda>fixBranch. addSuccessComment P cmt pr repo a fixBranch)"
  by (simp add: processor_applyChanges_def fix_steps_def Let_def try_catch_rethrow await_assoc await_resolve)

lemma emits_await_git:
  assumes "emits m (\<lambda>r es. git_only es)" "\<And>a. emits (f a) (\<lambda>r es. git_only es)"
  shows "emits (await m f) (\<lambda>r es. git_only es)"
  by (rule emits_weaken[OF emits_await[OF assms]]) auto

lemma emits_fix_steps: "emits (fix_steps P cfg tempDir cmt pr repo a) (\<lambda>r es. git_only es)"
  unfolding fix_steps_def Let_def
  apply (rule emits_await_git)
   apply (rule emits_weaken[OF emits_perform], simp)
  apply (rule emits_await_git)
   apply (rule emits_setupRepository)
  apply (rule emits_await_git)
   apply (rule emits_weaken[OF emits_createFixBranch], simp)
  apply (rule emits_await_git)
   apply (rule emits_weaken[OF emits_applyChanges], simp)
  apply (rule emits_await_git)
   apply (rule emits_weaken[OF emits_commitChanges], simp)
  apply (rule emits_await_git)
   apply (rule emits_weaken[OF emits_pushChanges], simp)
  apply (rule emits_weaken[OF emits_resolve], simp)
  done

lemma fix_steps_quiet:
  assumes "fix_steps P cfg tempDir cmt pr repo a (w1, t1) = (r, (w2, t2))"
  shows "comment_events t2 = comment_events t1"
  using emitsD[OF emits_fix_steps assms]
  by (auto simp: comment_events_append comment_events_git_only)

lemma analysis_quiet:
  assumes "processor_analyzeComment P cmt pr repo (w, []) = (r, (w1, t1))"
  shows "comment_events t1 = []"
proof -
  from emitsD[OF emits_processor_analyzeComment assms]
  have "t1 = [(files_call repo pr, False)] \<or> fetch_only t1" by auto
  then show ?thesis
    by (auto simp: files_call_def comment_events_fetch_only)
qed

lemma summary_quiet:
  assumes "generateChangeSummary P cs (w1, t1) = (r, (w2, t2))"
  shows "(\<exists>summary. r = Inr summary) \<and> comment_events t2 = comment_events t1"
  using emitsD[OF emits_generateChangeSummary assms]
  by (auto simp: comment_events_append)

lemma handleError_attempt:
  assumes "comment payload = Some cmt" "pull_request payload = Some pr"
  shows "comment_events (snd (snd (handleError P payload e (w1, t1)))) =
           comment_events t1 @ post_error P (repository payload) pr e w1"
  using assms
  by (simp add: handleError_def try_catch_def resolve_def perform_run Let_def post_error_def
      comment_events_append split: prod.splits sum.splits)

lemma post_attempt:
  assumes "comment payload = Some cmt" "pull_request payload = Some pr"
  shows "comment_events (snd (snd (try_catch
            (perform (CreateComment (repo_owner_login (repository payload)) (repo_name (repository payload))
                        (pr_number pr) body)
               (github_createComment P (repo_owner_login (repository payload)) (repo_name (repository payload))
                  (pr_number pr) body))
            (handleError P payload) (w1, t1)))) =
         comment_events t1 @ post_or_report P (repository payload) pr body w1"
  using assms
  by (simp add: handleError_def try_catch_def resolve_def perform_run Let_def post_error_def
      post_or_report_def comment_events_append split: prod.splits sum.splits)


lemma try_catch_await_Inl: "m s = (Inl e, s1) \<Longrightarrow> try_catch (await m f) h s = h e s1"
  by (simp add: try_catch_def await_def)

lemma try_catch_await_Inr: "m s = (Inr a, s1) \<Longrightarrow> try_catch (await m f) h s = try_catch (f a) h s1"
  by (simp add: try_catch_def await_def)

lemma event_log:
  assumes "not_skipped payload" "comment payload = Some cmt" "pull_request payload = Some pr"
  shows "log_of (handleCommentEvent P cfg tempDir payload st) =
     snd (snd (try_catch
       (await (processor_analyzeComment P cmt pr (repository payload)) (\<lambda>analysis.
                if \<not> shouldApply analysis
                then addAnalysisComment P cmt pr (repository payload) analysis
                else processor_applyChanges P cfg tempDir cmt pr (repository payload) analysis))
       (\<lambda>error. handleError P payload error) st))"
proof -
  have nb: "comment_user_login cmt \<noteq> ''AI Comment Fixer Bot''" and act: "action payload = ''created''"
    using assms by (simp_all add: not_skipped_def)
  have "snd (snd (try_catch m (\<lambda>error. resolve ()) st)) = snd (snd (m st))" for m :: "(unit, 'a) async"
    by (simp add: try_catch_def resolve_def split: prod.splits sum.splits)
  then show ?thesis
    using assms(2,3) nb act by (simp add: handleCommentEvent_def processComment_def log_of_def)
qed

lemma attempts_of_run:
  assumes ns: "not_skipped payload" and c: "comment payload = Some cmt" and p: "pull_request payload = Some pr"
    and v: "processor_analyzeComment P cmt pr (repository payload) (w, []) = (verdict, s)"
  shows "(case verdict of
            Inl e \<Rightarrow> attempts P cfg tempDir payload w = post_error P (repository payload) pr e (fst s)
          | Inr a \<Rightarrow>
              if \<not> shouldApply a
              then attempts P cfg tempDir payload w =
                     post_or_report P (repository payload) pr (analysis_message P a) (fst s)
              else (case fix_steps P cfg tempDir cmt pr (repository payload) a s of
                      (Inl e, s1) \<Rightarrow>
                        attempts P cfg tempDir payload w = post_error P (repository payload) pr e (fst s1)
                    | (Inr fixBranch, s1) \<Rightarrow>
                        (\<exists>summary s2. generateChangeSummary P (changes a) s1 = (Inr summary, s2) \<and>
                           attempts P cfg tempDir payload w =
                             post_or_report P (repository payload) pr
                               (success_message P summary pr a fixBranch) (fst s2) \<and>
                           sublist fixBranch (success_message P summary pr a fixBranch))))"
proof -
  let ?repo = "repository payload"
  let ?K = "\<lambda>analysis. if \<not> shouldApply analysis
                then addAnalysisComment P cmt pr ?repo analysis
                else processor_applyChanges P cfg tempDir cmt pr ?repo analysis"
  let ?h = "\<lambda>error. handleError P payload error"
  obtain w1 t1 where s: "s = (w1, t1)" by (cases s)
  have q1: "comment_events t1 = []"
    using analysis_quiet[OF v[unfolded s]] .
  have att: "attempts P cfg tempDir payload w =
      comment_events (snd (snd (try_catch (await (processor_analyzeComment P cmt pr ?repo) ?K) ?h (w, []))))"
    by (simp add: attempts_def event_log[OF ns c p])
  show ?thesis
  proof (cases verdict)
    case (Inl e)
    have "try_catch (await (processor_analyzeComment P cmt pr ?repo) ?K) ?h (w, []) = handleError P payload e (w1, t1)"
      using v[unfolded s Inl] by (rule try_catch_await_Inl)
    then have "attempts P cfg tempDir payload w = post_error P ?repo pr e w1"
      by (simp add: att handleError_attempt[OF c p] q1)
    then show ?thesis by (simp add: Inl s)
  next
    case (Inr a)
    have run: "try_catch (await (processor_analyzeComment P cmt pr ?repo) ?K) ?h (w, []) = try_catch (?K a) ?h (w1, t1)"
      using v[unfolded s Inr] by (rule try_catch_await_Inr)
    show ?thesis
    proof (cases "shouldApply a")
      case False
      have "attempts P cfg tempDir payload w = post_or_report P ?repo pr (analysis_message P a) w1"
        using False by (simp add: att run addAnalysisComment_def Let_def post_attempt[OF c p] q1)
      then show ?thesis using False by (simp add: Inr s)
    next
      case True
      obtain rg w2 t2 where g: "fix_steps P cfg tempDir cmt pr ?repo a (w1, t1) = (rg, (w2, t2))"
        by (metis prod.exhaust)
      have q2: "comment_events t2 = []"
        using fix_steps_quiet[OF g] q1 by simp
      have run2: "try_catch (?K a) ?h (w1, t1) =
          try_catch (await (fix_steps P cfg tempDir cmt pr ?repo a)
                       (\<lambda>fixBranch. addSuccessComment P cmt pr ?repo a fixBranch)) ?h (w1, t1)"
        using True by (simp add: processor_applyChanges_steps)
      show ?thesis
      proof (cases rg)
        case (Inl e)
        have "try_catch (?K a) ?h (w1, t1) = handleError P payload e (w2, t2)"
          unfolding run2 using g[unfolded Inl] by (rule try_catch_await_Inl)
        then have "attempts P cfg tempDir payload w = post_error P ?repo pr e w2"
          by (simp add: att run handleError_attempt[OF c p] q2)
        then show ?thesis using True by (simp add: Inr s g Inl)
      next
        case (Inr fb)
        obtain rs w3 t3 where gs: "generateChangeSummary P (changes a) (w2, t2) = (rs, (w3, t3))"
          by (metis prod.exhaust)
        from summary_quiet[OF gs] q2 obtain summary where rs: "rs = Inr summary" and q3: "comment_events t3 = []"
          by auto
        let ?body = "success_message P summary pr a fb"
        have "try_catch (?K a) ?h (w1, t1) = try_catch (addSuccessComment P cmt pr ?repo a fb) ?h (w2, t2)"
          unfolding run2 using g[unfolded Inr] by (rule try_catch_await_Inr)
        also have "addSuccessComment P cmt pr ?repo a fb =
            await (generateChangeSummary P (changes a)) (\<lambda>summary.
              perform (CreateComment (repo_owner_login ?repo) (repo_name ?repo) (pr_number pr)
                         (success_message P summary pr a fb))
                (github_createComment P (repo_owner_login ?repo) (repo_name ?repo) (pr_number pr)
                   (success_message P summary pr a fb)))"
          by (simp add: addSuccessComment_def Let_def)
        also have "try_catch \<dots> ?h (w2, t2) =
            try_catch (perform (CreateComment (repo_owner_login ?repo) (repo_name ?repo) (pr_number pr) ?body)
                (github_createComment P (repo_owner_login ?repo) (repo_name ?repo) (pr_number pr) ?body)) ?h (w3, t3)"
          using gs[unfolded rs] by (rule try_catch_await_Inr)
        finally have "attempts P cfg tempDir payload w = post_or_report P ?repo pr ?body w3"
          by (simp add: att run post_attempt[OF c p] q3)
        then have "\<exists>summary s2. generateChangeSummary P (changes a) (w2, t2) = (Inr summary, s2) \<and>
                           attempts P cfg tempDir payload w =
                             post_or_report P ?repo pr (success_message P summary pr a fb) (fst s2) \<and>
                           sublist fb (success_message P summary pr a fb)"
          using gs rs success_names_branch[of fb P summary pr a] by auto
        then show ?thesis using True by (simp add: \<open>verdict = Inr a\<close> s g Inr)
      qed
    qed
  qed
qed


lemma error_type_here: "sublist (xs @ ys) (xs @ ys @ s)"
  unfolding sublist_def by (intro exI[of _ "[]"] exI[of _ s]) simp

lemma attempts_bounds:
  assumes ns: "not_skipped payload" and c: "comment payload = Some cmt" and p: "pull_request payload = Some pr"
  shows "1 \<le> length (attempts P cfg tempDir payload w) \<and> length (attempts P cfg tempDir payload w) \<le> 2 \<and>
         length (filter snd (attempts P cfg tempDir payload w)) \<le> 1"
proof -
  obtain verdict s where v: "processor_analyzeComment P cmt pr (repository payload) (w, []) = (verdict, s)"
    by (metis prod.exhaust)
  have "(\<exists>e w'. attempts P cfg tempDir payload w = post_error P (repository payload) pr e w') \<or>
        (\<exists>body w'. attempts P cfg tempDir payload w = post_or_report P (repository payload) pr body w')"
    using attempts_of_run[OF ns c p v, of cfg tempDir]
    apply (auto split: sum.splits prod.splits if_splits)
    subgoal for a r w1 t1 by (cases r) auto
    done
  then show ?thesis
  proof (elim disjE exE)
    fix e w'
    assume "attempts P cfg tempDir payload w = post_error P (repository payload) pr e w'"
    then show ?thesis by (simp add: post_error_def)
  next
    fix body w'
    assume "attempts P cfg tempDir payload w = post_or_report P (repository payload) pr body w'"
    then show ?thesis
      by (simp add: post_or_report_def post_error_def split: prod.splits sum.splits)
  qed
qed

text \<open>
  C5, as amended. For every event that is not skipped, the comments the program tries
  to post are fixed by the outcome of the run. When the list of files cannot be fetched,
  it is the error comment of that error. When the verdict says not to apply, it is the
  analysis comment of that verdict. When the verdict is applied and a step of the fix
  fails, it is the error comment of that error; when every step succeeds, it is the
  success comment of that verdict, which contains the name of the fix branch. An error
  comment contains the message of its error and, after \<open>**Error Type:**\<close>, its class
  (\<open>Unknown error\<close> and \<open>Unknown\<close> for a thrown value that is no \<open>Error\<close>). When GitHub refuses the
  analysis or the success comment, the error comment of that refusal is tried in its
  place; when it refuses an error comment, nothing more is tried. So one or two comments
  are tried, at most one is posted, and none is posted when GitHub refuses them.
\<close>

theorem C5_comments_posted:
  assumes "not_skipped payload" and "comment payload = Some cmt" and "pull_request payload = Some pr"
    and "processor_analyzeComment P cmt pr (repository payload) (w, []) = (verdict, s)"
  shows "(case verdict of
            Inl e \<Rightarrow> attempts P cfg tempDir payload w = post_error P (repository payload) pr e (fst s)
          | Inr a \<Rightarrow>
              if \<not> shouldApply a
              then attempts P cfg tempDir payload w =
                     post_or_report P (repository payload) pr (analysis_message P a) (fst s)
              else (case fix_steps P cfg tempDir cmt pr (repository payload) a s of
                      (Inl e, s1) \<Rightarrow>
                        attempts P cfg tempDir payload w = post_error P (repository payload) pr e (fst s1)
                    | (Inr fixBranch, s1) \<Rightarrow>
                        (\<exists>summary s2. generateChangeSummary P (changes a) s1 = (Inr summary, s2) \<and>
                           attempts P cfg tempDir payload w =
                             post_or_report P (repository payload) pr
                               (success_message P summary pr a fixBranch) (fst s2) \<and>
                           sublist fixBranch (success_message P summary pr a fixBranch)))) \<and>
         sublist (''**Error Type:** '' @ cls) (error_message_text (Error cls msg)) \<and>
         sublist msg (error_message_text (Error cls msg)) \<and>
         sublist ''**Error Type:** Unknown'' (error_message_text NonError) \<and>
         sublist ''Unknown error'' (error_message_text NonError) \<and>
         1 \<le> length (attempts P cfg tempDir payload w) \<and>
         length (attempts P cfg tempDir payload w) \<le> 2 \<and>
         posted_comments (log_of (handleCommentEvent P cfg tempDir payload (w, []))) =
           map fst (filter snd (attempts P cfg tempDir payload w)) \<and>
         length (posted_comments (log_of (handleCommentEvent P cfg tempDir payload (w, [])))) \<le> 1"
proof -
  have posted: "posted_comments (log_of (handleCommentEvent P cfg tempDir payload (w, []))) =
           map fst (filter snd (attempts P cfg tempDir payload w))"
    by (simp add: posted_comments_def attempts_def)
  have names: "sublist msg (error_message_text (Error cls msg))"
    "sublist ''Unknown error'' (error_message_text NonError)"
    using error_names_message[of "Error cls msg"] error_names_message[of NonError]
    by (simp_all add: message_of_def)
  have "sublist (''**Error Type:** '' @ class_of e) (error_message_text e)" for e
    unfolding error_message_text_def by (rule error_type_here | rule sub_skip)+
  from this[of "Error cls msg"] this[of NonError]
  have types: "sublist (''**Error Type:** '' @ cls) (error_message_text (Error cls msg))"
    "sublist ''**Error Type:** Unknown'' (error_message_text NonError)"
    by (simp_all add: class_of_def)
  from attempts_of_run[OF assms, of cfg tempDir] attempts_bounds[OF assms(1,2,3), of P cfg tempDir w]
    names types posted
  show ?thesis by simp
qed

theorem C5_witness:
  "not_skipped example_payload \<and> comment example_payload = Some example_comment \<and>
   pull_request example_payload = Some example_pr \<and>
   fst (processor_analyzeComment example_platform example_comment example_pr example_repository (example_world, [])) =
     Inr fix_verdict \<and>
   attempts example_platform example_config ''temp-repos'' example_payload example_world =
     [(success_message example_platform ''Fixed a typo.'' example_pr fix_verdict ''fix/pr-42-1700000000000'', True)] \<and>
   fst (processor_analyzeComment example_platform example_comment example_pr example_repository (declining_world, [])) =
     Inr decline_verdict \<and>
   attempts example_platform example_config ''temp-repos'' example_payload declining_world =
     [(analysis_message example_platform decline_verdict, True)] \<and>
   fst (processor_analyzeComment example_platform example_comment example_pr example_repository (unreachable_world, [])) =
     Inl http_failure \<and>
   attempts example_platform example_config ''temp-repos'' example_payload unreachable_world =
     [(error_message_text http_failure, True)] \<and>
   fst (fix_steps example_platform example_config ''temp-repos'' example_comment example_pr example_repository
          fix_verdict (offline_world, example_log_of_analysis)) =
     Inl (git_failure ''fatal: unable to access the remote'') \<and>
   attempts example_platform example_config ''temp-repos'' example_payload offline_world =
     [(error_message_text (git_failure ''fatal: unable to access the remote''), True)] \<and>
   attempts example_platform example_config ''temp-repos'' example_payload refusing_world =
     [(analysis_message example_platform decline_verdict, False), (error_message_text http_failure, False)] \<and>
   posted_comments (log_of (handleCommentEvent example_platform example_config ''temp-repos'' example_payload
      (refusing_world, []))) = []"
proof -
  have h1: "not_skipped example_payload"
    by (simp add: not_skipped_def example_payload_def example_comment_def)
  have h2: "comment example_payload = Some example_comment" by (simp add: example_payload_def)
  have h3: "pull_request example_payload = Some example_pr" by (simp add: example_payload_def)
  have r: "repository example_payload = example_repository" by (simp add: example_payload_def)
  have v1: "processor_analyzeComment example_platform example_comment example_pr (repository example_payload)
     (example_world, []) = (Inr fix_verdict, (example_world, example_log_of_analysis))"
    by (simp add: eval_simps example_log_of_analysis_def)
  have v2: "processor_analyzeComment example_platform example_comment example_pr (repository example_payload)
     (declining_world, []) = (Inr decline_verdict, (declining_world, example_log_of_analysis))"
    by (simp add: eval_simps declining_world_def example_log_of_analysis_def)
  have v3: "processor_analyzeComment example_platform example_comment example_pr (repository example_payload)
     (unreachable_world, []) =
       (Inl http_failure, (unreachable_world, [(GetPullRequestFiles ''example'' ''repo'' 42, False)]))"
    by (simp add: eval_simps unreachable_world_def)
  have v4: "processor_analyzeComment example_platform example_comment example_pr (repository example_payload)
     (offline_world, []) = (Inr fix_verdict, (offline_world, example_log_of_analysis))"
    by (simp add: eval_simps offline_world_def example_log_of_analysis_def)
  have v5: "processor_analyzeComment example_platform example_comment example_pr (repository example_payload)
     (refusing_world, []) = (Inr decline_verdict, (refusing_world, example_log_of_analysis))"
    by (simp add: eval_simps refusing_world_def example_log_of_analysis_def)
  have a1: "attempts example_platform example_config ''temp-repos'' example_payload example_world =
     [(success_message example_platform ''Fixed a typo.'' example_pr fix_verdict ''fix/pr-42-1700000000000'', True)]"
    using C5_comments_posted[OF h1 h2 h3 v1, of example_config "''temp-repos''"]
    by (simp add: eval_simps fix_steps_def post_or_report_def example_log_of_analysis_def fix_verdict_def)
  have a2: "attempts example_platform example_config ''temp-repos'' example_payload declining_world =
     [(analysis_message example_platform decline_verdict, True)]"
    using C5_comments_posted[OF h1 h2 h3 v2, of example_config "''temp-repos''"]
    by (simp add: eval_simps post_or_report_def declining_world_def decline_verdict_def)
  have a3: "attempts example_platform example_config ''temp-repos'' example_payload unreachable_world =
     [(error_message_text http_failure, True)]"
    using C5_comments_posted[OF h1 h2 h3 v3, of example_config "''temp-repos''"]
    by (simp add: eval_simps post_error_def unreachable_world_def)
  have f4: "fix_steps example_platform example_config ''temp-repos'' example_comment example_pr example_repository
          fix_verdict (offline_world, example_log_of_analysis) =
     (Inl (git_failure ''fatal: unable to access the remote''),
      (offline_world, example_log_of_analysis @
         [(NewSimpleGit ''temp-repos/example-repo'', True), (GitPull, False)]))"
    by (simp add: eval_simps fix_steps_def offline_world_def)
  have a4: "attempts example_platform example_config ''temp-repos'' example_payload offline_world =
     [(error_message_text (git_failure ''fatal: unable to access the remote''), True)]"
    using C5_comments_posted[OF h1 h2 h3 v4, of example_config "''temp-repos''"] f4
    by (simp add: r post_error_def fix_verdict_def) (simp add: eval_simps offline_world_def)
  have a5: "attempts example_platform example_config ''temp-repos'' example_payload refusing_world =
     [(analysis_message example_platform decline_verdict, False), (error_message_text http_failure, False)]"
    using C5_comments_posted[OF h1 h2 h3 v5, of example_config "''temp-repos''"]
    by (simp add: eval_simps post_or_report_def post_error_def refusing_world_def decline_verdict_def)
  have p5: "posted_comments (log_of (handleCommentEvent example_platform example_config ''temp-repos'' example_payload
      (refusing_world, []))) = []"
    using C5_comments_posted[OF h1 h2 h3 v5, of example_config "''temp-repos''"] a5
    by simp
  show ?thesis
    using h1 h2 h3 v1 v2 v3 a1 a2 a3 f4 a4 a5 p5 by (simp add: r)
qed

text \<open>
  The claim as stated fails where GitHub refuses the comment: the event is not skipped,
  the verdict is reached and is not applied, and no comment is posted.
\<close>

theorem C5_no_comment_counterexample:
  "not_skipped example_payload \<and>
   posted_comments (log_of (handleCommentEvent example_platform example_config ''temp-repos'' example_payload
      (example_world\<lparr>ai_reply := Some decline_reply_text, gh_comments_up := False\<rparr>, []))) = []"
  by (simp add: eval_simps not_skipped_def posted_comments_def decline_verdict_def)

subsection \<open>Order of git and comments\<close>

lemma split_after_quiet:
  assumes q: "list_all (\<lambda>e. \<not> is_comment_call (fst e)) X"
    and eq: "X @ T = pre @ (c, ok) # post" and c: "is_comment_call c"
  shows "\<exists>pre'. pre = X @ pre' \<and> T = pre' @ (c, ok) # post"
proof -
  from eq obtain us where "(X = pre @ us \<and> us @ T = (c, ok) # post) \<or> (X @ us = pre \<and> T = us @ (c, ok) # post)"
    by (auto simp: append_eq_append_conv2)
  then show ?thesis
  proof (elim disjE conjE)
    assume X: "X = pre @ us" and u: "us @ T = (c, ok) # post"
    show ?thesis
    proof (cases us)
      case Nil
      with X u show ?thesis by simp
    next
      case (Cons u us')
      with u have "u = (c, ok)" by simp
      with X Cons have "(c, ok) \<in> set X" by simp
      with q c show ?thesis by (auto simp: list_all_iff)
    qed
  next
    assume "X @ us = pre" "T = us @ (c, ok) # post"
    then show ?thesis by blast
  qed
qed

lemma fetch_only_quiet: "fetch_only F \<Longrightarrow> list_all (\<lambda>e. \<not> is_comment_call (fst e)) F"
  by (induction F) (auto elim: is_fetch_call.elims)

lemma git_only_quiet: "git_only G \<Longrightarrow> list_all (\<lambda>e. \<not> is_comment_call (fst e)) G"
  by (induction G) (auto elim: is_git_call.elims)

lemma not_success_analysis: "\<not> prefix check_mark (analysis_message P a)"
  by (simp add: analysis_message_def check_mark_def robot_mark_def)

lemma not_success_error: "\<not> prefix check_mark (error_message_text e)"
  by (simp add: error_message_text_def check_mark_def cross_mark_def)

lemma one_split: "[a] = p @ x # q \<longleftrightarrow> p = [] \<and> x = a \<and> q = []"
  by (auto simp: Cons_eq_append_conv)

lemma two_split: "[a, b] = p @ x # q \<longleftrightarrow> (p = [] \<and> x = a \<and> q = [b]) \<or> (p = [a] \<and> x = b \<and> q = [])"
  by (auto simp: Cons_eq_append_conv)

lemma ordered_plain:
  assumes "\<not> prefix check_mark body" "list_all (\<lambda>e. \<not> is_git_call (fst e)) post"
  shows "ordered_after_git P rp cmt pr pre body post"
  using assms by (simp add: ordered_after_git_def)

lemma ordered_success:
  assumes "subseq (milestones P rp cmt pr a fb) pre" "list_all (\<lambda>e. \<not> is_git_call (fst e)) post"
  shows "ordered_after_git P rp cmt pr pre (success_message P summary pr a fb) post"
  unfolding ordered_after_git_def using assms by blast

lemma tail_one:
  assumes q: "list_all (\<lambda>e. \<not> is_comment_call (fst e)) X"
    and eq: "X @ [(comment_call repo pr b, k)] = pre @ (CreateComment ow rn n body, ok) # post"
  shows "pre = X \<and> body = b \<and> post = []"
proof -
  from split_after_quiet[OF q eq] obtain pre' where
    "pre = X @ pre'" "[(comment_call repo pr b, k)] = pre' @ (CreateComment ow rn n body, ok) # post"
    by auto
  then show ?thesis by (auto simp: one_split comment_call_def)
qed

lemma tail_two:
  assumes q: "list_all (\<lambda>e. \<not> is_comment_call (fst e)) X"
    and eq: "X @ [(comment_call repo pr b1, k1), (comment_call repo pr b2, k2)] =
             pre @ (CreateComment ow rn n body, ok) # post"
  shows "(pre = X \<and> body = b1 \<and> post = [(comment_call repo pr b2, k2)]) \<or>
         (pre = X @ [(comment_call repo pr b1, k1)] \<and> body = b2 \<and> post = [])"
proof -
  from split_after_quiet[OF q eq] obtain pre' where
    "pre = X @ pre'"
    "[(comment_call repo pr b1, k1), (comment_call repo pr b2, k2)] = pre' @ (CreateComment ow rn n body, ok) # post"
    by auto
  then show ?thesis by (auto simp: two_split comment_call_def)
qed

lemma run_shape_order:
  assumes sh: "run_shape P rp cmt pr repo es"
    and eq: "es = pre @ (CreateComment ow rn n body, ok) # post"
  shows "ordered_after_git P rp cmt pr pre body post"
  using sh unfolding run_shape_def
proof (elim disjE)
  assume "fetch_failed_shape repo pr es"
  then obtain e k where es: "es = [(files_call repo pr, False)] @ [(comment_call repo pr (error_message_text e), k)]"
    unfolding fetch_failed_shape_def by auto
  have "list_all (\<lambda>e. \<not> is_comment_call (fst e)) [(files_call repo pr, False)]"
    by (simp add: files_call_def)
  from tail_one[OF this es[unfolded eq, symmetric]] show ?thesis
    by (intro ordered_plain) (simp_all add: not_success_error)
next
  assume "declined_shape P repo pr es"
  then obtain F a where F: "fetch_only F" and
    es: "es = F @ [(comment_call repo pr (analysis_message P a), True)] \<or>
         (\<exists>e k. es = F @ [(comment_call repo pr (analysis_message P a), False),
                           (comment_call repo pr (error_message_text e), k)])"
    unfolding declined_shape_def by blast
  note q = fetch_only_quiet[OF F]
  from es show ?thesis
  proof (elim disjE exE)
    assume e1: "es = F @ [(comment_call repo pr (analysis_message P a), True)]"
    from tail_one[OF q e1[unfolded eq, symmetric]] show ?thesis
      by (intro ordered_plain) (simp_all add: not_success_analysis)
  next
    fix e k
    assume e2: "es = F @ [(comment_call repo pr (analysis_message P a), False),
                           (comment_call repo pr (error_message_text e), k)]"
    from tail_two[OF q e2[unfolded eq, symmetric]] show ?thesis
      by (intro ordered_plain) (auto simp: not_success_analysis not_success_error comment_call_def)
  qed
next
  assume "apply_failed_shape repo pr es"
  then obtain F G e k where F: "fetch_only F" and G: "git_only G"
    and es: "es = (F @ G) @ [(comment_call repo pr (error_message_text e), k)]"
    unfolding apply_failed_shape_def by auto
  have q: "list_all (\<lambda>e. \<not> is_comment_call (fst e)) (F @ G)"
    using fetch_only_quiet[OF F] git_only_quiet[OF G] by simp
  from tail_one[OF q es[unfolded eq, symmetric]] show ?thesis
    by (intro ordered_plain) (simp_all add: not_success_error)
next
  assume "applied_run_shape P rp cmt pr repo es"
  then obtain F Z r a where F: "fetch_only F"
    and Z: "applied_shape P rp cmt pr repo a r Z"
    and es: "(\<not> isl r \<and> es = F @ Z) \<or>
         (isl r \<and> (\<exists>e k. es = F @ Z @ [(comment_call repo pr (error_message_text e), k)]))"
    unfolding applied_run_shape_def by blast
  from Z obtain G fb summary k where
    Zeq: "Z = G @ [(ChatSummary, k), (comment_call repo pr (success_message P summary pr a fb), \<not> isl r)]"
    and G: "git_only G" and ms: "subseq (milestones P rp cmt pr a fb) G"
    unfolding applied_shape_def by blast
  let ?X = "F @ G @ [(ChatSummary, k)]"
  have q: "list_all (\<lambda>e. \<not> is_comment_call (fst e)) ?X"
    using fetch_only_quiet[OF F] git_only_quiet[OF G] by simp
  have msX: "subseq (milestones P rp cmt pr a fb) ?X"
    using ms by (simp add: list_emb_append2 list_emb_prefix)
  from es show ?thesis
  proof (elim disjE exE conjE)
    assume "\<not> isl r" "es = F @ Z"
    then have e1: "es = ?X @ [(comment_call repo pr (success_message P summary pr a fb), True)]"
      by (simp add: Zeq)
    from tail_one[OF q e1[unfolded eq, symmetric]] have "pre = ?X" "body = success_message P summary pr a fb" "post = []"
      by simp_all
    then show ?thesis using ordered_success[OF msX, of "[]" summary] by simp
  next
    fix e k'
    assume "isl r" "es = F @ Z @ [(comment_call repo pr (error_message_text e), k')]"
    then have e2: "es = ?X @ [(comment_call repo pr (success_message P summary pr a fb), False),
                             (comment_call repo pr (error_message_text e), k')]"
      by (simp add: Zeq)
    from tail_two[OF q e2[unfolded eq, symmetric]] show ?thesis
    proof (elim disjE conjE)
      assume "pre = ?X" "body = success_message P summary pr a fb"
        "post = [(comment_call repo pr (error_message_text e), k')]"
      then show ?thesis
        using ordered_success[OF msX, of "[(comment_call repo pr (error_message_text e), k')]" summary]
        by (simp add: comment_call_def)
    next
      assume "pre = ?X @ [(comment_call repo pr (success_message P summary pr a fb), False)]"
        "body = error_message_text e" "post = []"
      then show ?thesis by (intro ordered_plain) (simp_all add: not_success_error)
    qed
  qed
qed

lemma skipped_untouched:
  assumes "\<not> not_skipped payload"
  shows "handleCommentEvent P cfg tempDir payload s = (Inr (), s)"
proof (cases "action payload \<noteq> ''created'' \<or> pull_request payload = None")
  case True
  then show ?thesis by (auto simp: handleCommentEvent_def resolve_def)
next
  case False
  then obtain pr where pr: "pull_request payload = Some pr" and act: "action payload = ''created''" by auto
  have "processComment P cfg tempDir payload s = (Inr (), s)"
  proof (cases "comment payload")
    case None
    then show ?thesis by (simp add: processComment_def try_catch_def resolve_def)
  next
    case (Some cmt)
    with assms pr act have "comment_user_login cmt = ''AI Comment Fixer Bot''"
      by (simp add: not_skipped_def)
    with Some pr show ?thesis by (simp add: processComment_def try_catch_def resolve_def)
  qed
  then show ?thesis using pr act by (simp add: handleCommentEvent_def try_catch_def)
qed

lemma processor_analyzeComment_quiet:
  assumes "processor_analyzeComment P cmt pr repo (w, []) = (r, s1)"
  shows "list_all (\<lambda>e. \<not> is_git_call (fst e)) (snd s1) \<and> list_all (\<lambda>e. \<not> is_comment_call (fst e)) (snd s1)"
proof -
  obtain w1 t1 where s1: "s1 = (w1, t1)" by (cases s1)
  from emitsD[OF emits_processor_analyzeComment assms[unfolded s1]]
  have "t1 = [(files_call repo pr, False)] \<or> fetch_only t1" by auto
  then have "fetch_only t1" by (auto simp: files_call_def)
  then have "list_all (\<lambda>e. \<not> is_git_call (fst e)) t1 \<and> list_all (\<lambda>e. \<not> is_comment_call (fst e)) t1"
    by (induction t1) (auto elim: is_fetch_call.elims)
  then show ?thesis by (simp add: s1)
qed

text \<open>
  C7. In every run, wherever a comment is posted or tried, no git or file operation
  comes after it; and a success comment comes after the creation of the branch it
  names, the write of every change, the staging, the commit and the push of that
  branch, each of them successful and in that order. A failure comment therefore also
  follows every git operation of the run, the failed one included.
\<close>

theorem C7_comment_after_git:
  assumes "log_of (handleCommentEvent P cfg tempDir payload (w, [])) = pre @ (CreateComment ow rn n body, ok) # post"
  shows "list_all (\<lambda>e. \<not> is_git_call (fst e)) post \<and>
         (prefix check_mark body \<longrightarrow>
            (\<exists>cmt pr a fb summary.
               comment payload = Some cmt \<and> pull_request payload = Some pr \<and>
               body = success_message P summary pr a fb \<and>
               subseq (milestones P (working_copy_path P tempDir (repository payload)) cmt pr a fb) pre))"
proof (cases "not_skipped payload")
  case False
  have "log_of (handleCommentEvent P cfg tempDir payload (w, [])) = []"
    by (simp add: log_of_def skipped_untouched[OF False])
  with assms show ?thesis by simp
next
  case True
  then obtain cmt pr where c: "comment payload = Some cmt" and p: "pull_request payload = Some pr"
    by (auto simp: not_skipped_def split: option.splits)
  let ?log = "log_of (handleCommentEvent P cfg tempDir payload (w, []))"
  have "run_shape P (working_copy_path P tempDir (repository payload)) cmt pr (repository payload) ?log"
    using emits_log[OF emits_handleCommentEvent[OF True c p, where P=P and cfg=cfg and tempDir=tempDir], of w]
    by simp
  from run_shape_order[OF this assms]
  show ?thesis unfolding ordered_after_git_def using c p by blast
qed

theorem C7_witness:
  "log_of (handleCommentEvent example_platform example_config ''temp-repos'' example_payload (example_world, [])) =
     example_log_before_comment @ (CreateComment ''example'' ''repo'' 42 example_success_body, True) # [] \<and>
   prefix check_mark example_success_body \<and>
   (\<exists>cmt pr a fb summary.
      comment example_payload = Some cmt \<and> pull_request example_payload = Some pr \<and>
      example_success_body = success_message example_platform summary pr a fb \<and>
      subseq (milestones example_platform (working_copy_path example_platform ''temp-repos'' (repository example_payload))
                cmt pr a fb) example_log_before_comment)"
proof -
  have h: "log_of (handleCommentEvent example_platform example_config ''temp-repos'' example_payload (example_world, [])) =
     example_log_before_comment @ (CreateComment ''example'' ''repo'' 42 example_success_body, True) # []"
    by (simp add: eval_simps example_log_before_comment_def example_success_body_def example_fix_branch_def
        fix_verdict_def)
  have p: "prefix check_mark example_success_body"
    by (simp add: example_success_body_def success_message_def)
  show ?thesis
    using h p C7_comment_after_git[OF h] by blast
qed

subsection \<open>A verdict that is not applied\<close>

text \<open>
  C10. When the verdict of an event that is not skipped says not to apply, also when it
  carries changes, the run performs no git or file operation at all: after the analysis
  it only posts the analysis comment (and, when GitHub refuses that, tries the error
  comment). Every change of the verdict is echoed in the analysis comment: the comment
  contains the line made of a dash, the file name of the change, a colon and its
  description.
\<close>

theorem C10_declined_verdict_touches_nothing:
  assumes "not_skipped payload" "comment payload = Some cmt" "pull_request payload = Some pr"
    and "processor_analyzeComment P cmt pr (repository payload) (w, []) = (Inr a, s1)"
    and "\<not> shouldApply a"
  shows "list_all (\<lambda>e. \<not> is_git_call (fst e)) (log_of (handleCommentEvent P cfg tempDir payload (w, []))) \<and>
         (\<exists>ok rest.
            log_of (handleCommentEvent P cfg tempDir payload (w, [])) =
              snd s1 @ (comment_call (repository payload) pr (analysis_message P a), ok) # rest \<and>
            ((ok \<and> rest = []) \<or>
             (\<not> ok \<and> (\<exists>e k. rest = [(comment_call (repository payload) pr (error_message_text e), k)])))) \<and>
         (\<forall>c \<in> set (changes a).
            sublist (''- '' @ filename c @ '': '' @ description c) (analysis_message P a))"
proof -
  obtain w1 t1 where s1: "s1 = (w1, t1)" by (cases s1)
  let ?repo = "repository payload"
  let ?msg = "analysis_message P a"
  have nb: "comment_user_login cmt \<noteq> ''AI Comment Fixer Bot''" and act: "action payload = ''created''"
    using assms(1,2,3) by (simp_all add: not_skipped_def)
  obtain r w2 where post: "github_createComment P (repo_owner_login ?repo) (repo_name ?repo) (pr_number pr) ?msg w1 = (r, w2)"
    by (metis prod.exhaust)
  define r' where "r' e = fst (github_createComment P (repo_owner_login ?repo) (repo_name ?repo) (pr_number pr)
      (error_message_text e) w2)" for e
  define w3 where "w3 e = snd (github_createComment P (repo_owner_login ?repo) (repo_name ?repo) (pr_number pr)
      (error_message_text e) w2)" for e
  have post': "\<And>e. github_createComment P (repo_owner_login ?repo) (repo_name ?repo) (pr_number pr)
      (error_message_text e) w2 = (r' e, w3 e)"
    by (simp add: r'_def w3_def)
  have log: "\<exists>ok rest.
            log_of (handleCommentEvent P cfg tempDir payload (w, [])) =
              t1 @ (comment_call ?repo pr ?msg, ok) # rest \<and>
            ((ok \<and> rest = []) \<or>
             (\<not> ok \<and> (\<exists>e k. rest = [(comment_call ?repo pr (error_message_text e), k)])))"
  proof (cases r)
    case (Inr u)
    have "log_of (handleCommentEvent P cfg tempDir payload (w, [])) = t1 @ [(comment_call ?repo pr ?msg, True)]"
      using assms(2,3,4,5) nb act post Inr
      by (simp add: handleCommentEvent_def processComment_def try_catch_def await_def addAnalysisComment_def
          perform_run log_of_def s1 comment_call_def Let_def)
    then show ?thesis by blast
  next
    case (Inl e)
    have "log_of (handleCommentEvent P cfg tempDir payload (w, [])) =
            t1 @ [(comment_call ?repo pr ?msg, False), (comment_call ?repo pr (error_message_text e), \<not> isl (r' e))]"
      using assms(2,3,4,5) nb act post Inl post'[of e]
      by (simp add: handleCommentEvent_def processComment_def try_catch_def await_def addAnalysisComment_def
          handleError_def resolve_def perform_run log_of_def s1 comment_call_def Let_def split: sum.splits)
    then show ?thesis by blast
  qed
  from processor_analyzeComment_quiet[OF assms(4)] have q: "list_all (\<lambda>e. \<not> is_git_call (fst e)) t1"
    by (simp add: s1)
  from log q have 1: "list_all (\<lambda>e. \<not> is_git_call (fst e)) (log_of (handleCommentEvent P cfg tempDir payload (w, [])))"
    by (auto simp: comment_call_def)
  have 3: "\<forall>c \<in> set (changes a).
      sublist (''- '' @ filename c @ '': '' @ description c) (analysis_message P a)"
    using analysis_echoes_changes[of _ a P] by (simp add: change_line_def)
  from 1 log 3 show ?thesis by (simp add: s1)
qed

theorem C10_witness:
  "not_skipped example_payload \<and> \<not> shouldApply decline_verdict \<and> changes decline_verdict \<noteq> [] \<and>
   processor_analyzeComment example_platform example_comment example_pr (repository example_payload)
     (declining_world, []) = (Inr decline_verdict, (declining_world, example_log_of_analysis)) \<and>
   list_all (\<lambda>e. \<not> is_git_call (fst e))
     (log_of (handleCommentEvent example_platform example_config ''temp-repos'' example_payload (declining_world, []))) \<and>
   list_all (\<lambda>c. sublist (''- '' @ filename c @ '': '' @ description c)
               (analysis_message example_platform decline_verdict))
     (changes decline_verdict) \<and>
   sublist ''- a.ts: rename'' (analysis_message example_platform decline_verdict)"
proof -
  have h1: "not_skipped example_payload"
    by (simp add: not_skipped_def example_payload_def example_comment_def)
  have h2: "comment example_payload = Some example_comment" by (simp add: example_payload_def)
  have h3: "pull_request example_payload = Some example_pr" by (simp add: example_payload_def)
  have h4: "processor_analyzeComment example_platform example_comment example_pr (repository example_payload)
     (declining_world, []) = (Inr decline_verdict, (declining_world, example_log_of_analysis))"
    by (simp add: eval_simps declining_world_def example_log_of_analysis_def)
  have h5: "\<not> shouldApply decline_verdict" by (simp add: decline_verdict_def)
  have h6: "changes decline_verdict \<noteq> []" by (simp add: decline_verdict_def)
  show ?thesis
    using h1 h4 h5 h6
      C10_declined_verdict_touches_nothing[OF h1 h2 h3 h4 h5, of example_config "''temp-repos''"]
    by (simp add: list_all_iff decline_verdict_def)
qed

subsection \<open>Malformed replies\<close>

lemma validate_change_tested: "validate_change c i = Inr x \<Longrightarrow> tested_change_well_formed c"
  unfolding validate_change_def and_then_Inr
  by (cases c) (auto simp: expect_string_def tested_change_well_formed_def is_json_string_def
      split: option.splits json.splits)

lemma validate_changes_tested: "validate_changes xs i = Inr cs \<Longrightarrow> list_all tested_change_well_formed xs"
  by (induction xs arbitrary: i cs) (auto simp: and_then_Inr dest: validate_change_tested)

lemma parseAIResponse_try_tested:
  assumes "parseAIResponse_try parse response = Inr a"
  shows "\<exists>m v. json_match response = Some m \<and> parse m = Inr v \<and> tested_reply_well_formed v"
proof -
  from assms obtain m v sa b co n ro r cho xs cs where
    m: "json_match response = Some m" and v: "parse m = Inr v"
    and 1: "get_prop v ''shouldApply'' = Inr sa" "expect_boolean sa ''Invalid shouldApply field'' = Inr b"
    and 2: "get_prop v ''confidence'' = Inr co" "expect_confidence co ''Invalid confidence field'' = Inr n"
    and 3: "get_prop v ''reasoning'' = Inr ro" "expect_string ro ''Invalid reasoning field'' = Inr r"
    and 4: "get_prop v ''changes'' = Inr cho" "expect_array cho ''Invalid changes field'' = Inr xs"
    and 5: "validate_changes xs 0 = Inr cs"
    unfolding parseAIResponse_try_def and_then_Inr by (auto split: option.splits)
  from 1 obtain kvs where kvs: "v = JObject kvs"
    by (cases v) (auto simp: expect_boolean_def)
  have "tested_reply_well_formed v"
    using 1 2 3 4 validate_changes_tested[OF 5] expect_confidence_Inr[OF 2(2)]
    by (auto simp: kvs tested_reply_well_formed_def expect_boolean_def expect_confidence_def expect_string_def
        expect_array_def is_json_string_def split: option.splits json.splits if_splits)
  with m v show ?thesis by blast
qed

text \<open>
  Every reply that fails a test of the validator is turned into the safe default, with
  the failure as its reasoning.
\<close>

lemma parse_failure_gives_safe_default:
  assumes "json_match response = None \<or>
           (\<exists>m e. json_match response = Some m \<and> parse m = Inl e) \<or>
           (\<exists>m v. json_match response = Some m \<and> parse m = Inr v \<and> \<not> tested_reply_well_formed v)"
  shows "\<exists>e. parseAIResponse parse response = Inr (safe_default (''Failed to parse AI response: '' @ message_of e))"
proof (cases "parseAIResponse_try parse response")
  case (Inl e)
  then show ?thesis by (auto simp: parseAIResponse_def)
next
  case (Inr a)
  from parseAIResponse_try_tested[OF Inr] assms show ?thesis by auto
qed

lemma safe_default_is_safe: "is_safe_default (safe_default why)"
  by (simp add: is_safe_default_def safe_default_def)

text \<open>A failure of the request gives the safe default as well.\<close>

lemma request_failure_gives_safe_default:
  assumes "openai_create_analysis P cmt pr files fc w = (Inl e, w')"
  shows "analyzeComment P cmt pr files fc (w, t) =
           (Inr (safe_default (''Error analyzing comment: '' @ message_of e)), (w', t @ [(ChatAnalysis, False)]))"
  using assms by (simp add: analyzeComment_result perform_run)

text \<open>
  C1. The claim holds for every test the validator makes (the two lemmas above), and
  fails for the one field it does not test: a reply whose only defect is a change with
  a string as \<open>lineNumber\<close> is not of the shape the specification demands, yet
  \<open>analyzeComment\<close> returns it as a verdict to apply, the string stored in the field
  declared \<open>lineNumber?: number\<close>, instead of the safe default.
\<close>

theorem C1_stray_line_number_is_trusted:
  "\<not> spec_reply_well_formed stray_reply_json \<and>
   table_parse example_table stray_reply_text = Inr stray_reply_json \<and>
   fst (analyzeComment example_platform example_comment example_pr (gh_files stray_world) [] (stray_world, [])) =
     Inr stray_verdict \<and>
   shouldApply stray_verdict \<and> \<not> is_safe_default stray_verdict"
proof -
  have 1: "\<not> spec_reply_well_formed stray_reply_json"
    by (simp add: spec_reply_well_formed_def spec_change_well_formed_def stray_reply_json_def is_json_string_def
        is_json_number_def unit_confidence_def)
  have 2: "table_parse example_table stray_reply_text = Inr stray_reply_json"
    by (simp add: table_parse_def example_table_def reply_texts_differ)
  have 3: "fst (analyzeComment example_platform example_comment example_pr (gh_files stray_world) []
             (stray_world, [])) = Inr stray_verdict"
    by (simp add: eval_simps stray_world_def)
  have 4: "shouldApply stray_verdict \<and> \<not> is_safe_default stray_verdict"
    by (simp add: stray_verdict_def is_safe_default_def)
  from 1 2 3 4 show ?thesis by simp
qed

subsection \<open>The signature verifier\<close>

lemma verifyWebhookSignature_catching_total:
  "\<exists>b. verifyWebhookSignature_catching hmac_hex env_secret payload signature = Inr b"
  unfolding verifyWebhookSignature_catching_def Let_def
  by (cases "timingSafeEqual
        (hex_decode (if prefix ''sha256='' signature then drop 7 signature else signature))
        (hex_decode (hmac_hex (case env_secret of None \<Rightarrow> fallback_secret
                               | Some k \<Rightarrow> if k = [] then fallback_secret else k) payload))")
     auto

lemma verifyWebhookSignature_raises_iff:
  "isl (verifyWebhookSignature hmac_hex secret payload signature) \<longleftrightarrow>
     length signature \<noteq> 7 + length (hmac_hex secret payload)"
  by (simp add: verifyWebhookSignature_def timingSafeEqual_def utf8_bytes_def)

text \<open>
  C2. The body of \<open>verifyWebhookSignature\<close> that the webhook route calls has no
  \<open>try\<close>: whenever the header and \<open>sha256=\<close> with the digest differ in length
  it raises the RangeError of \<open>timingSafeEqual\<close> instead of returning false, for
  instance on the header \<open>sha256\<close>, whatever the key, the payload and the HMAC are,
  and the route answers 500 instead of 401. The other body catches the error and
  always returns a boolean (lemma \<open>verifyWebhookSignature_catching_total\<close>).
\<close>

theorem C2_short_signature_raises:
  "verifyWebhookSignature hmac_hex secret payload ''sha256'' =
     Inl (Error ''RangeError'' ''Input buffers must have the same byte length'') \<and>
   webhook_signature_stage hmac_hex secret (Some ''sha256'') (Some payload) = Status500"
  by (simp add: webhook_signature_stage_def verifyWebhookSignature_def timingSafeEqual_def utf8_bytes_def)

subsection \<open>Skipped events\<close>

lemma skip_conditions_tested:
  assumes "action payload \<noteq> ''created'' \<or> pull_request payload = None \<or>
           (\<exists>c. comment payload = Some c \<and> comment_user_login c = ''AI Comment Fixer Bot'')"
  shows "handleCommentEvent P cfg tempDir payload s = (Inr (), s)"
  using assms by (intro skipped_untouched) (auto simp: not_skipped_def split: option.splits)

text \<open>
  C3. An event whose action is not \<open>created\<close> or that carries no pull request leaves
  the log as it was (lemma \<open>skip_conditions_tested\<close>). The test of the author is
  made against the literal \<open>AI Comment Fixer Bot\<close>, not against the configured
  identity: with the committer name \<open>fixer-bot\<close> configured, a comment written by
  \<open>fixer-bot\<close> is analysed by the engine and the working copy is operated on.
\<close>

theorem C3_own_comment_is_processed:
  "comment self_payload = Some (example_comment\<lparr>comment_user_login := git_userName example_config\<rparr>) \<and>
   list_ex (\<lambda>e. is_engine_call (fst e))
     (log_of (handleCommentEvent example_platform example_config ''temp-repos'' self_payload (example_world, []))) \<and>
   list_ex (\<lambda>e. is_git_call (fst e))
     (log_of (handleCommentEvent example_platform example_config ''temp-repos'' self_payload (example_world, [])))"
  by (simp add: eval_simps self_payload_def fix_verdict_def)

subsection \<open>Failures while fetching\<close>

lemma fetch_contents_step:
  "fetch_contents P repo pr (file # rest) fc s =
     (case perform (GetFileContent (repo_owner_login repo) (repo_name repo) (file_filename file) (pr_head_sha pr))
             (github_getFileContent P (repo_owner_login repo) (repo_name repo) (file_filename file) (pr_head_sha pr)) s of
        (r, s1) \<Rightarrow>
          fetch_contents P repo pr rest
            (AList.update (file_filename file) (case r of Inl e \<Rightarrow> ''File content not available'' | Inr c \<Rightarrow> c) fc) s1)"
  by (simp add: await_def try_catch_def resolve_def split: prod.splits sum.splits)

lemma fetch_contents_result:
  "\<exists>fc' w' es.
     fetch_contents P repo pr files fc (w, t) = (Inr fc', (w', t @ es)) \<and>
     map fst es = fetches repo pr files \<and>
     (\<forall>k. k \<notin> file_filename ` set files \<longrightarrow> map_of fc' k = map_of fc k) \<and>
     (distinct (map file_filename files) \<longrightarrow>
        list_all2 (\<lambda>f e. map_of fc' (file_filename f) \<noteq> None \<and>
                     (\<not> snd e \<longrightarrow> map_of fc' (file_filename f) = Some ''File content not available''))
          files es)"
proof (induction files arbitrary: fc w t)
  case Nil
  show ?case by (simp add: resolve_def fetches_def)
next
  case (Cons f rest)
  let ?c = "GetFileContent (repo_owner_login repo) (repo_name repo) (file_filename f) (pr_head_sha pr)"
  obtain r w1 where g: "github_getFileContent P (repo_owner_login repo) (repo_name repo) (file_filename f) (pr_head_sha pr) w = (r, w1)"
    by (metis prod.exhaust)
  let ?v = "case r of Inl e \<Rightarrow> ''File content not available'' | Inr c \<Rightarrow> c"
  let ?fc1 = "AList.update (file_filename f) ?v fc"
  from Cons.IH[of ?fc1 w1 "t @ [(?c, \<not> isl r)]"] obtain fc' w' es where
    run: "fetch_contents P repo pr rest ?fc1 (w1, t @ [(?c, \<not> isl r)]) = (Inr fc', (w', (t @ [(?c, \<not> isl r)]) @ es))"
    and calls: "map fst es = fetches repo pr rest"
    and keeps: "\<forall>k. k \<notin> file_filename ` set rest \<longrightarrow> map_of fc' k = map_of ?fc1 k"
    and marks: "distinct (map file_filename rest) \<longrightarrow>
        list_all2 (\<lambda>f e. map_of fc' (file_filename f) \<noteq> None \<and>
                     (\<not> snd e \<longrightarrow> map_of fc' (file_filename f) = Some ''File content not available''))
          rest es"
    by blast
  have 1: "fetch_contents P repo pr (f # rest) fc (w, t) = (Inr fc', (w', t @ ((?c, \<not> isl r) # es)))"
    using run by (simp add: fetch_contents_step perform_run g del: fetch_contents.simps)
  have 2: "map fst ((?c, \<not> isl r) # es) = fetches repo pr (f # rest)"
    using calls by (simp add: fetches_def)
  have 3: "\<forall>k. k \<notin> file_filename ` set (f # rest) \<longrightarrow> map_of fc' k = map_of fc k"
    using keeps by (simp add: update_conv')
  have 4: "distinct (map file_filename (f # rest)) \<longrightarrow>
        list_all2 (\<lambda>f e. map_of fc' (file_filename f) \<noteq> None \<and>
                     (\<not> snd e \<longrightarrow> map_of fc' (file_filename f) = Some ''File content not available''))
          (f # rest) ((?c, \<not> isl r) # es)"
  proof
    assume d: "distinct (map file_filename (f # rest))"
    then have "file_filename f \<notin> file_filename ` set rest" by simp
    with keeps have "map_of fc' (file_filename f) = Some ?v" by (simp add: update_conv')
    then have "map_of fc' (file_filename f) \<noteq> None \<and>
                     (\<not> snd (?c, \<not> isl r) \<longrightarrow> map_of fc' (file_filename f) = Some ''File content not available'')"
      by (cases r) simp_all
    with marks d show "list_all2 (\<lambda>f e. map_of fc' (file_filename f) \<noteq> None \<and>
                     (\<not> snd e \<longrightarrow> map_of fc' (file_filename f) = Some ''File content not available''))
          (f # rest) ((?c, \<not> isl r) # es)"
      by simp
  qed
  from 1 2 3 4 show ?case by blast
qed

lemma run_extends_analysis:
  assumes ns: "not_skipped payload" and c: "comment payload = Some cmt" and p: "pull_request payload = Some pr"
    and an: "processor_analyzeComment P cmt pr (repository payload) (w, []) = (Inr a, (w2, t2))"
  shows "\<exists>rest. log_of (handleCommentEvent P cfg tempDir payload (w, [])) = t2 @ rest"
proof -
  let ?repo = "repository payload"
  let ?K = "if \<not> shouldApply a then addAnalysisComment P cmt pr ?repo a
            else processor_applyChanges P cfg tempDir cmt pr ?repo a"
  have nb: "comment_user_login cmt \<noteq> ''AI Comment Fixer Bot''" and act: "action payload = ''created''"
    using ns c p by (simp_all add: not_skipped_def)
  obtain r3 w3 t3 where k: "?K (w2, t2) = (r3, (w3, t3))" by (metis prod.exhaust)
  have "\<exists>es. t3 = t2 @ es"
  proof (cases "shouldApply a")
    case True
    with k have "processor_applyChanges P cfg tempDir cmt pr ?repo a (w2, t2) = (r3, (w3, t3))" by simp
    from emitsD[OF emits_processor_applyChanges this] show ?thesis by blast
  next
    case False
    with k have "addAnalysisComment P cmt pr ?repo a (w2, t2) = (r3, (w3, t3))" by simp
    from emitsD[OF emits_addAnalysisComment this] show ?thesis by blast
  qed
  then obtain es3 where t3: "t3 = t2 @ es3" by blast
  have pc: "processComment P cfg tempDir payload (w, []) =
          (case r3 of Inl e \<Rightarrow> handleError P payload e (w3, t3) | Inr u \<Rightarrow> (Inr u, (w3, t3)))"
    using k by (simp add: processComment_def c p nb try_catch_def await_def an split: sum.splits)
  show ?thesis
  proof (cases r3)
    case (Inr u)
    with pc have "log_of (handleCommentEvent P cfg tempDir payload (w, [])) = t3"
      by (simp add: handleCommentEvent_def act p try_catch_def log_of_def)
    with t3 show ?thesis by simp
  next
    case (Inl e)
    obtain r4 w4 t4 where h: "handleError P payload e (w3, t3) = (r4, (w4, t4))" by (metis prod.exhaust)
    from emitsD[OF emits_handleError[OF c p] h] obtain es4 where t4: "t4 = t3 @ es4" and r4: "r4 = Inr ()" by blast
    from pc Inl h r4 have "log_of (handleCommentEvent P cfg tempDir payload (w, [])) = t4"
      by (simp add: handleCommentEvent_def act p try_catch_def log_of_def)
    with t3 t4 show ?thesis by simp
  qed
qed

lemma listing_failure_surfaced:
  assumes ns: "not_skipped payload" and c: "comment payload = Some cmt" and p: "pull_request payload = Some pr"
    and f: "github_getPullRequestFiles P (repo_owner_login (repository payload)) (repo_name (repository payload))
              (pr_number pr) w = (Inl e, w1)"
  shows "\<exists>ok. log_of (handleCommentEvent P cfg tempDir payload (w, [])) =
           [(files_call (repository payload) pr, False),
            (comment_call (repository payload) pr (error_message_text e), ok)]"
proof -
  have nb: "comment_user_login cmt \<noteq> ''AI Comment Fixer Bot''" and act: "action payload = ''created''"
    using ns c p by (simp_all add: not_skipped_def)
  obtain r w2 where g: "github_createComment P (repo_owner_login (repository payload)) (repo_name (repository payload))
      (pr_number pr) (error_message_text e) w1 = (r, w2)"
    by (metis prod.exhaust)
  have "log_of (handleCommentEvent P cfg tempDir payload (w, [])) =
           [(files_call (repository payload) pr, False),
            (comment_call (repository payload) pr (error_message_text e), \<not> isl r)]"
    using f g
    by (simp add: handleCommentEvent_def act p c nb processComment_def processor_analyzeComment_def handleError_def
        try_catch_def await_def resolve_def perform_run log_of_def files_call_def comment_call_def Let_def
        split: sum.splits)
  then show ?thesis by blast
qed

lemma listing_success_reaches_engine:
  assumes ns: "not_skipped payload" and c: "comment payload = Some cmt" and p: "pull_request payload = Some pr"
    and f: "github_getPullRequestFiles P (repo_owner_login (repository payload)) (repo_name (repository payload))
              (pr_number pr) w = (Inr files, w1)"
  shows "\<exists>es k rest.
           log_of (handleCommentEvent P cfg tempDir payload (w, [])) =
             (files_call (repository payload) pr, True) # es @ (ChatAnalysis, k) # rest \<and>
           map fst es = fetches (repository payload) pr files"
proof -
  let ?repo = "repository payload"
  from fetch_contents_result[of P ?repo pr files "[]" w1 "[(files_call ?repo pr, True)]"]
  obtain fc' w' es where
    fr: "fetch_contents P ?repo pr files [] (w1, [(files_call ?repo pr, True)]) =
           (Inr fc', (w', [(files_call ?repo pr, True)] @ es))"
    and calls: "map fst es = fetches ?repo pr files"
    by blast
  obtain r w'' t'' where ar: "analyzeComment P cmt pr files fc' (w', [(files_call ?repo pr, True)] @ es) = (r, (w'', t''))"
    by (metis prod.exhaust)
  from emitsD[OF emits_analyzeComment ar] obtain a k where
    r: "r = Inr a" and t'': "t'' = ([(files_call ?repo pr, True)] @ es) @ [(ChatAnalysis, k)]"
    by blast
  have "processor_analyzeComment P cmt pr ?repo (w, []) = (Inr a, (w'', (files_call ?repo pr, True) # es @ [(ChatAnalysis, k)]))"
    using f fr ar r t''
    by (simp add: processor_analyzeComment_def await_def perform_run files_call_def)
  from run_extends_analysis[OF ns c p this, of cfg tempDir] calls show ?thesis by auto
qed

text \<open>
  C4, as amended. For an event that is not skipped: a failure of the request for the
  file list of the pull request ends the run before any verdict and is shown to the
  user, the run being that request and the error comment with the error of the
  request; when the list is obtained, the content of every file of the list is
  requested, in order, and the engine is called, whatever these requests do; the loop
  over the files never fails, and a file whose request failed has the content
  \<open>File content not available\<close> (file names being distinct, as in a GitHub list).
\<close>

theorem C4_fetch_stage_failures:
  assumes "not_skipped payload" and "comment payload = Some cmt" and "pull_request payload = Some pr"
  shows "(github_getPullRequestFiles P (repo_owner_login (repository payload)) (repo_name (repository payload))
            (pr_number pr) w = (Inl e, w1) \<longrightarrow>
          (\<exists>ok. log_of (handleCommentEvent P cfg tempDir payload (w, [])) =
             [(files_call (repository payload) pr, False),
              (comment_call (repository payload) pr (error_message_text e), ok)])) \<and>
         (github_getPullRequestFiles P (repo_owner_login (repository payload)) (repo_name (repository payload))
            (pr_number pr) w = (Inr files, w1) \<longrightarrow>
          (\<exists>es k rest.
             log_of (handleCommentEvent P cfg tempDir payload (w, [])) =
               (files_call (repository payload) pr, True) # es @ (ChatAnalysis, k) # rest \<and>
             map fst es = fetches (repository payload) pr files)) \<and>
         (\<exists>fc w' es.
            fetch_contents P (repository payload) pr fs [] (w0, t) = (Inr fc, (w', t @ es)) \<and>
            map fst es = fetches (repository payload) pr fs \<and>
            (distinct (map file_filename fs) \<longrightarrow>
               list_all2 (\<lambda>f e. map_of fc (file_filename f) \<noteq> None \<and>
                            (\<not> snd e \<longrightarrow> map_of fc (file_filename f) = Some ''File content not available''))
                 fs es))"
proof (intro conjI impI)
  assume "github_getPullRequestFiles P (repo_owner_login (repository payload)) (repo_name (repository payload))
            (pr_number pr) w = (Inl e, w1)"
  from listing_failure_surfaced[OF assms this]
  show "\<exists>ok. log_of (handleCommentEvent P cfg tempDir payload (w, [])) =
             [(files_call (repository payload) pr, False),
              (comment_call (repository payload) pr (error_message_text e), ok)]" .
next
  assume "github_getPullRequestFiles P (repo_owner_login (repository payload)) (repo_name (repository payload))
            (pr_number pr) w = (Inr files, w1)"
  from listing_success_reaches_engine[OF assms this]
  show "\<exists>es k rest.
             log_of (handleCommentEvent P cfg tempDir payload (w, [])) =
               (files_call (repository payload) pr, True) # es @ (ChatAnalysis, k) # rest \<and>
             map fst es = fetches (repository payload) pr files" .
next
  from fetch_contents_result[of P "repository payload" pr fs "[]" w0 t]
  show "\<exists>fc w' es.
            fetch_contents P (repository payload) pr fs [] (w0, t) = (Inr fc, (w', t @ es)) \<and>
            map fst es = fetches (repository payload) pr fs \<and>
            (distinct (map file_filename fs) \<longrightarrow>
               list_all2 (\<lambda>f e. map_of fc (file_filename f) \<noteq> None \<and>
                            (\<not> snd e \<longrightarrow> map_of fc (file_filename f) = Some ''File content not available''))
                 fs es)"
    by blast
qed

theorem C4_witness:
  "not_skipped example_payload \<and>
   github_getPullRequestFiles example_platform ''example'' ''repo'' 42 unreachable_world =
     (Inl http_failure, unreachable_world) \<and>
   (\<exists>ok. log_of (handleCommentEvent example_platform example_config ''temp-repos'' example_payload
             (unreachable_world, [])) =
          [(files_call example_repository example_pr, False),
           (comment_call example_repository example_pr (error_message_text http_failure), ok)]) \<and>
   github_getPullRequestFiles example_platform ''example'' ''repo'' 42 example_world =
     (Inr (gh_files example_world), example_world) \<and>
   (\<exists>es k rest.
      log_of (handleCommentEvent example_platform example_config ''temp-repos'' example_payload (example_world, [])) =
        (files_call example_repository example_pr, True) # es @ (ChatAnalysis, k) # rest \<and>
      map fst es = fetches example_repository example_pr (gh_files example_world)) \<and>
   distinct (map file_filename two_files) \<and>
   fetch_contents example_platform example_repository example_pr two_files [] (example_world, []) =
     (Inr [(''a.ts'', ''recieve''), (''b.ts'', ''File content not available'')],
      (example_world,
       [(GetFileContent ''example'' ''repo'' ''a.ts'' ''abc123def456'', True),
        (GetFileContent ''example'' ''repo'' ''b.ts'' ''abc123def456'', False)]))"
proof -
  have h1: "not_skipped example_payload"
    by (simp add: not_skipped_def example_payload_def example_comment_def)
  have h2: "comment example_payload = Some example_comment" by (simp add: example_payload_def)
  have h3: "pull_request example_payload = Some example_pr" by (simp add: example_payload_def)
  have r: "repository example_payload = example_repository" by (simp add: example_payload_def)
  have f1: "github_getPullRequestFiles example_platform ''example'' ''repo'' 42 unreachable_world =
     (Inl http_failure, unreachable_world)"
    by (simp add: reference_def unreachable_world_def example_world_def)
  have f2: "github_getPullRequestFiles example_platform ''example'' ''repo'' 42 example_world =
     (Inr (gh_files example_world), example_world)"
    by (simp add: reference_def example_world_def)
  have o: "repo_owner_login example_repository = ''example''" "repo_name example_repository = ''repo''"
    "pr_number example_pr = 42"
    by (simp_all add: example_repository_def example_pr_def)
  have d: "distinct (map file_filename two_files)" by (simp add: two_files_def)
  have e: "fetch_contents example_platform example_repository example_pr two_files [] (example_world, []) =
     (Inr [(''a.ts'', ''recieve''), (''b.ts'', ''File content not available'')],
      (example_world,
       [(GetFileContent ''example'' ''repo'' ''a.ts'' ''abc123def456'', True),
        (GetFileContent ''example'' ''repo'' ''b.ts'' ''abc123def456'', False)]))"
    by (simp add: eval_simps two_files_def)
  note t = C4_fetch_stage_failures[OF h1 h2 h3, where P=example_platform and cfg=example_config
      and tempDir="''temp-repos''", unfolded r o]
  from t[where w=unreachable_world and e=http_failure and ?w1.0=unreachable_world] f1
  have a: "\<exists>ok. log_of (handleCommentEvent example_platform example_config ''temp-repos'' example_payload
             (unreachable_world, [])) =
          [(files_call example_repository example_pr, False),
           (comment_call example_repository example_pr (error_message_text http_failure), ok)]"
    by blast
  from t[where w=example_world and files="gh_files example_world" and ?w1.0=example_world] f2
  have b: "\<exists>es k rest.
      log_of (handleCommentEvent example_platform example_config ''temp-repos'' example_payload (example_world, [])) =
        (files_call example_repository example_pr, True) # es @ (ChatAnalysis, k) # rest \<and>
      map fst es = fetches example_repository example_pr (gh_files example_world)"
    by blast
  from h1 f1 a f2 b d e show ?thesis by blast
qed

text \<open>
  The claim as stated fails on its first half: with the GitHub API down for reading,
  the error of the request for the file list is posted to the pull request, and no
  verdict was reached, the engine not having been called.
\<close>

theorem C4_listing_error_counterexample:
  "log_of (handleCommentEvent example_platform example_config ''temp-repos'' example_payload (unreachable_world, [])) =
     [(GetPullRequestFiles ''example'' ''repo'' 42, False),
      (CreateComment ''example'' ''repo'' 42 (error_message_text http_failure), True)]"
  by (simp add: eval_simps unreachable_world_def)

subsection \<open>The name of the fix branch\<close>














lemma reference_refuses_existing: "\<not> creates_existing (reference dir table) b w"
  by (auto simp: creates_existing_def reference_def world_checkout_def world_pull_def
      world_checkoutLocalBranch_def split: prod.splits sum.splits option.splits if_splits)




subsection \<open>Applying a change set twice\<close>



lemma write_result:
  "world_writeFileSync p c w =
     (if writable p w then (Inr (), w\<lparr>wc_files := (wc_files w)(p \<mapsto> c)\<rparr>)
      else (fst (world_writeFileSync p c w), w))"
  by (auto simp: world_writeFileSync_def writable_def list_all_iff list_ex_iff)

lemma write_fails: "\<not> writable p w \<Longrightarrow> isl (fst (world_writeFileSync p c w))"
  by (auto simp: world_writeFileSync_def writable_def list_all_iff list_ex_iff)

lemma write_Inr:
  "world_writeFileSync p c w = (Inr u, w1) \<longleftrightarrow> writable p w \<and> w1 = w\<lparr>wc_files := (wc_files w)(p \<mapsto> c)\<rparr>"
  using write_result[of p c w] write_fails[of p w c] by (cases "writable p w") auto












lemma written_Cons: "written dir (c # cs) m = written dir cs (m(world_join dir (filename c) \<mapsto> content c))"
  by (simp add: written_def)

lemma written_Nil: "written dir [] m = m"
  by (simp add: written_def)





lemma written_dom:
  "written dir cs m p \<noteq> None \<longleftrightarrow> p \<in> world_join dir ` filename ` set cs \<or> m p \<noteq> None"
  by (induction cs arbitrary: m) (auto simp add: written_Nil written_Cons)







lemma written_present:
  "c \<in> set cs \<Longrightarrow> \<exists>y. written dir cs F (world_join dir (filename c)) = Some y"
  using written_dom[of dir cs F "world_join dir (filename c)"] by auto














end
